theory Spec2Isabelle
  imports Complex_Main "HOL-Library.Log_Nat" "HOL-Library.Sublist"
begin

section \<open>Python values used by the lead finder\<close>

subsection \<open>Strings\<close>

text \<open>
  A Python \<open>str\<close> is modelled as a \<open>string\<close> whose characters are the code points
  0 to 255 (every literal of the program lies in that range; \<open>CHR 0xE9\<close> is the
  accented e of the coffee-shop keys).

  \<open>str_in p s\<close> is Python's \<open>p in s\<close> on strings: \<open>p\<close> occurs in \<open>s\<close> as a
  contiguous substring.
\<close>

fun starts_with :: "string \<Rightarrow> string \<Rightarrow> bool" where
  "starts_with [] s = True"
| "starts_with (c # p) [] = False"
| "starts_with (c # p) (d # s) = (c = d \<and> starts_with p s)"

fun str_in :: "string \<Rightarrow> string \<Rightarrow> bool" where
  "str_in p [] = (p = [])"
| "str_in p (d # s) = (starts_with p (d # s) \<or> str_in p s)"

text \<open>\<open>str.lower()\<close> on code points below 256: A-Z and the Latin-1 capitals move up by 32.\<close>

definition lower_char :: "char \<Rightarrow> char" where
  "lower_char c =
     (case c of Char b0 b1 b2 b3 b4 b5 b6 b7 \<Rightarrow>
        (let n = (of_char c :: nat)
         in if (65 \<le> n \<and> n \<le> 90) \<or> (192 \<le> n \<and> n \<le> 222 \<and> n \<noteq> 215)
            then Char b0 b1 b2 b3 b4 True b6 b7 else c))"

definition lower :: "string \<Rightarrow> string" where
  "lower s = map lower_char s"

text \<open>\<open>str.isspace()\<close> and \<open>str.strip()\<close> on code points below 256.\<close>

definition is_space :: "char \<Rightarrow> bool" where
  "is_space c =
     (let n = (of_char c :: nat)
      in (9 \<le> n \<and> n \<le> 13) \<or> (28 \<le> n \<and> n \<le> 32) \<or> n = 133 \<or> n = 160)"

definition strip :: "string \<Rightarrow> string" where
  "strip s = rev (dropWhile is_space (rev (dropWhile is_space s)))"

definition is_digit :: "char \<Rightarrow> bool" where
  "is_digit c = (let n = (of_char c :: nat) in 48 \<le> n \<and> n \<le> 57)"

text \<open>The decimal rendering of an \<open>int\<close> inside an f-string.\<close>

fun str_nat :: "nat \<Rightarrow> string" where
  "str_nat n =
     (if n < 10 then [''0123456789'' ! n]
      else str_nat (n div 10) @ [''0123456789'' ! (n mod 10)])"

declare str_nat.simps [simp del]

definition str_int :: "int \<Rightarrow> string" where
  "str_int i = (if i < 0 then CHR ''-'' # str_nat (nat (- i)) else str_nat (nat i))"

text \<open>
  Truthiness of an \<open>Optional[str]\<close>: \<open>None\<close> and the empty string are false.
  \<open>py_or a b\<close> is the value of \<open>a or b\<close>.
\<close>

definition truthy :: "string option \<Rightarrow> bool" where
  "truthy v = (case v of None \<Rightarrow> False | Some s \<Rightarrow> s \<noteq> [])"

definition py_or :: "string option \<Rightarrow> string option \<Rightarrow> string option" where
  "py_or a b = (if truthy a then a else b)"

text \<open>
  The value stored under a text key of a post dictionary: a \<open>str\<close> or \<open>None\<close>.
  \<open>py_format\<close> is what an f-string prints for it.
\<close>

datatype pyval = PStr string | PNone

definition py_format :: "pyval \<Rightarrow> string" where
  "py_format v = (case v of PStr s \<Rightarrow> s | PNone \<Rightarrow> ''None'')"

subsection \<open>Floats\<close>

text \<open>
  A Python \<open>float\<close> is an IEEE 754 binary64 number. Its values are modelled as the
  rationals they denote, and \<open>fl\<close> rounds an exact result to the nearest number
  with a 53-bit significand, ties to even. The exponent range is not modelled: every
  quantity below is zero or lies between \<open>2 powi (-1022)\<close> and \<open>2 powi 1023\<close>.

  \<open>flog2 x\<close> is the exponent of \<open>x\<close>: \<open>2 powi (flog2 x) \<le> x < 2 powi (flog2 x + 1)\<close>.
\<close>

definition flog2 :: "rat \<Rightarrow> int" where
  "flog2 x = (if 1 \<le> x then bitlen \<lfloor>x\<rfloor> - 1 else - bitlen (\<lceil>1 / x\<rceil> - 1))"

definition round_half_even :: "rat \<Rightarrow> int" where
  "round_half_even q =
     (let f = \<lfloor>q\<rfloor>; r = q - of_int f
      in if r < 1 / 2 then f else if 1 / 2 < r then f + 1 else if even f then f else f + 1)"

definition fl :: "rat \<Rightarrow> rat" where
  "fl x = (if x = 0 then 0
           else let a = \<bar>x\<bar>; u = 2 powi (flog2 a - 52)
                in sgn x * (of_int (round_half_even (a / u)) * u))"

text \<open>\<open>int(x)\<close> of a float truncates towards zero.\<close>

definition py_trunc :: "rat \<Rightarrow> int" where
  "py_trunc x = (if 0 \<le> x then \<lfloor>x\<rfloor> else \<lceil>x\<rceil>)"

text \<open>
  \<open>a / b\<close> on two \<open>int\<close>s is the correctly rounded quotient; \<open>x * n\<close> and
  \<open>x + n\<close> with an \<open>int\<close> \<open>n\<close> convert \<open>n\<close> exactly (it is far below \<open>2 ^ 53\<close>
  wherever the program does this) and round the result.
\<close>

definition py_truediv :: "int \<Rightarrow> int \<Rightarrow> rat" where
  "py_truediv a b = fl (of_int a / of_int b)"

definition fmul :: "rat \<Rightarrow> rat \<Rightarrow> rat" where
  "fmul x y = fl (x * y)"

definition fadd :: "rat \<Rightarrow> rat \<Rightarrow> rat" where
  "fadd x y = fl (x + y)"

definition fsub :: "rat \<Rightarrow> rat \<Rightarrow> rat" where
  "fsub x y = fl (x - y)"

definition fdiv :: "rat \<Rightarrow> rat \<Rightarrow> rat" where
  "fdiv x y = fl (x / y)"

section \<open>Cost and usage calculator (app/utils/cost_calculator.py)\<close>

definition get_posts_to_scrape :: "int \<Rightarrow> int" where
  "get_posts_to_scrape result_count = result_count * 15"

definition MAX_RESULTS :: int where
  "MAX_RESULTS = 150"

definition MAX_POSTS :: int where
  "MAX_POSTS = 2250"

text \<open>
  \<open>validate_user_limits\<close> returns the tuple
  \<open>(is_valid, error_message, posts_needed, remaining_results, remaining_posts)\<close>.
\<close>

definition validate_user_limits :: "int \<Rightarrow> int \<Rightarrow> int \<Rightarrow> bool \<times> string \<times> int \<times> int \<times> int" where
  "validate_user_limits user_results_used user_posts_analyzed requested_results =
     (let posts_needed = get_posts_to_scrape requested_results
      in if user_results_used + requested_results > MAX_RESULTS then
           (let remaining_results = MAX_RESULTS - user_results_used
            in (False,
                ''Request would exceed beta limit. You have '' @ str_int remaining_results
                  @ '' results remaining, but requested '' @ str_int requested_results,
                posts_needed, remaining_results, MAX_POSTS - user_posts_analyzed))
         else if user_posts_analyzed + posts_needed > MAX_POSTS then
           (let remaining_posts = MAX_POSTS - user_posts_analyzed;
                max_results_with_remaining_posts = remaining_posts div 15
            in (False,
                ''Request would exceed budget limit. You have '' @ str_int remaining_posts
                  @ '' posts remaining (max '' @ str_int max_results_with_remaining_posts
                  @ '' results), but requested '' @ str_int requested_results @ '' results'',
                posts_needed, MAX_RESULTS - user_results_used, remaining_posts))
         else
           (let new_results_used = user_results_used + requested_results;
                new_posts_analyzed = user_posts_analyzed + posts_needed;
                remaining_results = MAX_RESULTS - new_results_used;
                remaining_posts = MAX_POSTS - new_posts_analyzed
            in (True, ''Valid request'', posts_needed, remaining_results, remaining_posts)))"

section \<open>Result cache (app/services/result_cache.py)\<close>

text \<open>
  The cache dictionary maps a key to \<open>(timestamp, results)\<close>. Clock readings are
  floats (seconds); \<open>now\<close> is the reading of \<open>time.time()\<close> inside the call.
\<close>

type_synonym 'r cache = "string \<rightharpoonup> (rat \<times> 'r)"

definition refresh_interval_hours :: rat where
  "refresh_interval_hours = 24"

definition generate_cache_key :: "string \<Rightarrow> string \<Rightarrow> string \<Rightarrow> string \<Rightarrow> int option \<Rightarrow> string" where
  "generate_cache_key query business_type time_range user_id result_count =
     (case result_count of
        Some n \<Rightarrow> query @ ''_'' @ business_type @ ''_'' @ time_range @ ''_'' @ user_id
                    @ ''_'' @ str_int n
      | None \<Rightarrow> query @ ''_'' @ business_type @ ''_'' @ time_range @ ''_'' @ user_id)"

definition age_hours :: "rat \<Rightarrow> rat \<Rightarrow> rat" where
  "age_hours now timestamp = fdiv (fsub now timestamp) 3600"

text \<open>
  \<open>get_cached_results\<close> returns the optional \<open>(results, age_hours)\<close> and the cache
  after the call (an expired entry is deleted).
\<close>

definition get_cached_results ::
  "'r cache \<Rightarrow> rat \<Rightarrow> string \<Rightarrow> string \<Rightarrow> string \<Rightarrow> string \<Rightarrow> int option
     \<Rightarrow> ('r \<times> rat) option \<times> 'r cache" where
  "get_cached_results cache now query business_type time_range user_id result_count =
     (let cache_key = generate_cache_key query business_type time_range user_id result_count
      in case cache cache_key of
           None \<Rightarrow> (None, cache)
         | Some (timestamp, results) \<Rightarrow>
             (let age = age_hours now timestamp
              in if age > refresh_interval_hours then (None, cache(cache_key := None))
                 else (Some (results, age), cache)))"

definition cache_results ::
  "'r cache \<Rightarrow> rat \<Rightarrow> string \<Rightarrow> string \<Rightarrow> string \<Rightarrow> string \<Rightarrow> ('r \<times> rat) \<Rightarrow> int option
     \<Rightarrow> 'r cache" where
  "cache_results cache now query business_type time_range user_id results_with_age result_count =
     (let cache_key = generate_cache_key query business_type time_range user_id result_count;
          timestamp = now;
          (results, age) = results_with_age
      in cache(cache_key \<mapsto> (timestamp, results)))"

section \<open>Keyword catalogue (app/services/business_keywords.py)\<close>

text \<open>
  The two dictionaries are association lists in the order of the source: the conflict
  penalty below looks at the first three other keys.
\<close>

definition BUSINESS_KEYWORDS :: "(string \<times> string list) list" where
  "BUSINESS_KEYWORDS =
     [
      (''Gyms / Fitness Studios'',
       [''gym'', ''fitness'', ''trainer'', ''workout'', ''members'', ''membership'',
        ''exercise'', ''personal training'', ''fitness studio'', ''gym owner'',
        ''fitness business'', ''personal trainer'', ''workout studio'', ''fitness center'',
        ''health club'']),
      (''SaaS Companies'',
       [''saas'', ''software'', ''app'', ''application'', ''platform'', ''subscription'',
        ''mrr'', ''arr'', ''api'', ''dashboard'', ''tech'', ''startup'', ''software company'',
        ''web app'', ''mobile app'', ''cloud'', ''b2b'', ''enterprise'', ''integration'',
        ''automation'']),
      (''E-commerce Stores'',
       [''ecommerce'', ''shopify'', ''amazon'', ''etsy'', ''store'', ''products'',
        ''inventory'', ''shipping'', ''retail'', ''online store'', ''dropshipping'',
        ''fulfillment'', ''merchandise'', ''marketplace'', ''seller'', ''vendor'',
        ''product catalog'']),
      (''Marketing Agencies'',
       [''agency'', ''client'', ''campaign'', ''creative'', ''brand'', ''marketing'', ''seo'',
        ''ppc'', ''advertising'', ''digital marketing'', ''social media'',
        ''content marketing'', ''email marketing'', ''marketing agency'', ''ad agency'',
        ''creative agency'', ''marketing services'']),
      (''Freelance Designers'',
       [''freelance'', ''designer'', ''design'', ''graphic design'', ''ui'', ''ux'', ''logo'',
        ''branding'', ''visual'', ''creative'', ''portfolio'', ''client work'',
        ''design project'', ''freelance designer'', ''graphic designer'', ''web design'']),
      ((''Coffee Shops / Caf'' @ [CHR 0xE9] @ ''s''),
       [''coffee'', ''cafe'', (''caf'' @ [CHR 0xE9]), ''coffee shop'', ''barista'',
        ''espresso'', ''latte'', ''coffee business'', ''cafe owner'', ''coffee shop owner'',
        ''roastery'', ''coffee roaster'', ''coffee house'', ''beverage'']),
      (''Online Course Creators'',
       [''course'', ''online course'', ''education'', ''teaching'', ''learning'', ''student'',
        ''curriculum'', ''course creator'', ''online education'', ''elearning'', ''training'',
        ''workshop'', ''tutorial'', ''educational content'', ''course platform'']),
      (''Local Service Businesses'',
       [''local business'', ''service business'', ''contractor'', ''plumber'', ''electrician'',
        ''handyman'', ''home improvement'', ''local services'', ''service provider'',
        ''home services'', ''maintenance'', ''repair'', ''installation'', ''local contractor'']),
      (''App Developers'',
       [''app developer'', ''mobile app'', ''ios'', ''android'', ''app development'',
        ''programming'', ''coding'', ''developer'', ''software developer'', ''app store'',
        ''mobile development'', ''app creation'', ''app building'', ''mobile app developer'']),
      (''Consultants / Coaches'',
       [''consultant'', ''coach'', ''consulting'', ''coaching'', ''advisor'', ''mentor'',
        ''business coach'', ''life coach'', ''consulting business'', ''coaching business'',
        ''professional services'', ''business advisor'', ''strategy consultant''])
     ]"

definition INDUSTRY_KEYWORDS :: "(string \<times> string list) list" where
  "INDUSTRY_KEYWORDS =
     [
      (''Fitness'',
       [''fitness'', ''gym'', ''workout'', ''exercise'', ''training'', ''health'',
        ''wellness'', ''personal training'', ''fitness business'', ''gym owner'',
        ''fitness studio'', ''health club'', ''fitness center'']),
      (''SaaS / Tech'',
       [''saas'', ''software'', ''tech'', ''technology'', ''app'', ''application'',
        ''platform'', ''startup'', ''software company'', ''tech company'', ''web app'',
        ''mobile app'', ''cloud'', ''b2b'', ''enterprise'']),
      (''E-commerce'',
       [''ecommerce'', ''online store'', ''retail'', ''shopping'', ''products'',
        ''marketplace'', ''seller'', ''vendor'', ''shopify'', ''amazon'', ''etsy'',
        ''dropshipping'', ''fulfillment'', ''merchandise'']),
      (''Marketing & Advertising'',
       [''marketing'', ''advertising'', ''agency'', ''digital marketing'', ''social media'',
        ''seo'', ''ppc'', ''content marketing'', ''email marketing'', ''brand'', ''campaign'',
        ''creative'', ''marketing agency'']),
      (''Education / Edtech'',
       [''education'', ''learning'', ''teaching'', ''course'', ''online course'', ''student'',
        ''elearning'', ''training'', ''workshop'', ''tutorial'', ''educational'',
        ''course creator'', ''online education'']),
      (''Food & Beverage'',
       [''food'', ''restaurant'', ''cafe'', ''coffee'', ''beverage'', ''dining'',
        ''food business'', ''restaurant owner'', ''coffee shop'', ''cafe owner'',
        ''food service'', ''culinary'', ''catering'', ''food truck'']),
      (''Local Services'',
       [''local business'', ''service'', ''contractor'', ''home improvement'', ''maintenance'',
        ''repair'', ''installation'', ''local services'', ''service provider'',
        ''home services'', ''local contractor'']),
      (''Finance / Fintech'',
       [''finance'', ''financial'', ''fintech'', ''banking'', ''investment'', ''money'',
        ''financial services'', ''fintech company'', ''financial advisor'', ''investment'',
        ''trading'', ''cryptocurrency'', ''fintech'']),
      (''Freelancers / Creatives'',
       [''freelance'', ''freelancer'', ''creative'', ''design'', ''designer'', ''artist'',
        ''creative services'', ''freelance work'', ''creative business'', ''design business'',
        ''creative professional'']),
      (''Consulting / Coaching'',
       [''consulting'', ''coaching'', ''consultant'', ''coach'', ''advisor'', ''mentor'',
        ''professional services'', ''business consulting'', ''life coaching'',
        ''business coach'', ''strategy consultant'', ''business advisor''])
     ]"

section \<open>Struggle lexicon (AIEnhancer.__init__)\<close>

text \<open>
  \<open>high_urgency\<close>, \<open>medium_urgency\<close> and \<open>business_keywords\<close> are the three lists of
  \<open>self.struggle_indicators\<close>.
\<close>

definition high_urgency :: "string list" where
  "high_urgency =
     [''struggling'', ''struggle'', ''desperate'', ''urgent'', ''failing'', ''lost'',
      ''can't'', ''cannot'', ''can not'', ''help'', ''advice'', ''stuck'', ''frustrated'',
      ''overwhelmed'', ''declining'', ''losing'', ''first client'', ''first customer'',
      ''no customers'', ''no clients'', ''getting clients'', ''customer acquisition'',
      ''lead generation'', ''need help'', ''looking for'', ''how to'', ''what should'',
      ''any advice'', ''trouble'', ''problem'', ''issue'']"

definition medium_urgency :: "string list" where
  "medium_urgency =
     [''challenging'', ''difficult'', ''hard'', ''tough'', ''slow'', ''low'', ''few'',
      ''not enough'', ''lack of'', ''need more'', ''want to improve'', ''trying to'',
      ''working on'', ''focusing on'']"

definition business_keywords :: "string list" where
  "business_keywords =
     [''revenue'', ''sales'', ''profit'', ''growth'', ''marketing'', ''advertising'',
      ''clients'', ''customers'', ''leads'', ''conversion'', ''retention'', ''churn'',
      ''pricing'', ''competition'', ''market'', ''brand'', ''website'', ''online'',
      ''digital'', ''social media'', ''email'', ''content'', ''seo'', ''ppc'']"

definition success_story_patterns :: "(string \<times> string list) list" where
  "success_story_patterns =
     [
      (''revenue_indicators'',
       [''hit $'', ''made $'', ''reached $'', ''grew to $'', ''earned $'', ''revenue'',
        ''mrr'', ''arr'']),
      (''success_phrases'',
       [''here's what worked'', ''here's how i'', ''my advice is'', ''try this'',
        ''what you should do'']),
      (''past_tense_success'',
       [''i grew'', ''i built'', ''i launched'', ''i created'', ''i developed'',
        ''i achieved'']),
      (''teaching_indicators'',
       [''here's what'', ''let me share'', ''i want to tell'', ''here's my story'',
        ''here's how'']),
      (''promotion_indicators'',
       [''i will not promote'', ''not promoting'', ''no promotion''])
     ]"

definition active_struggle_patterns :: "(string \<times> string list) list" where
  "active_struggle_patterns =
     [
      (''present_tense_questions'',
       [''how do i'', ''what should i'', ''any advice'', ''can someone help'',
        ''need help with'']),
      (''current_problems'',
       [''i'm struggling'', ''i can't'', ''i need help'', ''stuck with'', ''can't figure out'']),
      (''direct_help_requests'',
       [''help me'', ''advice needed'', ''any suggestions'', ''what should i do''])
     ]"

section \<open>Relevance scorer (app/services/ai_enhancer.py)\<close>

definition get_keywords_for_business :: "string \<Rightarrow> string list" where
  "get_keywords_for_business business_type =
     (case map_of BUSINESS_KEYWORDS business_type of None \<Rightarrow> [] | Some ks \<Rightarrow> ks)"

definition get_keywords_for_industry :: "string \<Rightarrow> string list" where
  "get_keywords_for_industry industry_type =
     (case map_of INDUSTRY_KEYWORDS industry_type of None \<Rightarrow> [] | Some ks \<Rightarrow> ks)"

definition get_keywords_for_selection :: "string option \<Rightarrow> string option \<Rightarrow> string list" where
  "get_keywords_for_selection business industry =
     (case business of
        Some b \<Rightarrow>
          (if b \<noteq> [] then get_keywords_for_business b
           else (case industry of
                   Some i \<Rightarrow> if i \<noteq> [] then get_keywords_for_industry i else []
                 | None \<Rightarrow> []))
      | None \<Rightarrow>
          (case industry of
             Some i \<Rightarrow> if i \<noteq> [] then get_keywords_for_industry i else []
           | None \<Rightarrow> []))"

text \<open>
  \<open>count_matches text ks\<close> is \<open>sum(1 for keyword in ks if keyword in text)\<close>, the
  generator summed from the left.
\<close>

fun count_matches_from :: "int \<Rightarrow> string \<Rightarrow> string list \<Rightarrow> int" where
  "count_matches_from acc text [] = acc"
| "count_matches_from acc text (k # ks) =
     count_matches_from (if str_in k text then acc + 1 else acc) text ks"

definition count_matches :: "string \<Rightarrow> string list \<Rightarrow> int" where
  "count_matches text ks = count_matches_from 0 text ks"

definition calculate_business_relevance_score :: "string \<Rightarrow> string list \<Rightarrow> int" where
  "calculate_business_relevance_score post_text target_keywords =
     (if target_keywords = [] then 0
      else
        (let post_lower = lower post_text;
             matches = count_matches post_lower target_keywords;
             match_percentage = fmul (py_truediv matches (int (length target_keywords))) 100;
             match_percentage =
               (if matches \<ge> 3 then fadd match_percentage 20
                else if matches \<ge> 2 then fadd match_percentage 10
                else match_percentage)
         in min 100 (py_trunc match_percentage)))"

text \<open>
  The iteration \<open>for p in patterns: if p in post_text: score += w\<close>, over a list and over
  the lists of a dictionary.
\<close>

fun add_matches :: "int \<Rightarrow> string \<Rightarrow> string list \<Rightarrow> int \<Rightarrow> int" where
  "add_matches w text [] score = score"
| "add_matches w text (p # ps) score =
     add_matches w text ps (if str_in p text then score + w else score)"

fun add_matches_dict :: "int \<Rightarrow> string \<Rightarrow> (string \<times> string list) list \<Rightarrow> int \<Rightarrow> int" where
  "add_matches_dict w text [] score = score"
| "add_matches_dict w text ((category, patterns) # rest) score =
     add_matches_dict w text rest (add_matches w text patterns score)"

text \<open>
  \<open>re.search(r'\$\d+[k|m]?', s)\<close> finds a match exactly when some dollar sign of \<open>s\<close>
  is directly followed by a digit: \<open>\d+\<close> needs one digit and the class after it is
  optional.
\<close>

fun currency_amount :: "string \<Rightarrow> bool" where
  "currency_amount [] = False"
| "currency_amount [c] = False"
| "currency_amount (c # d # s) = ((c = CHR ''$'' \<and> is_digit d) \<or> currency_amount (d # s))"

definition calculate_keyword_match :: "string \<Rightarrow> string list \<Rightarrow> int" where
  "calculate_keyword_match post_text keywords =
     (if keywords = [] then 0
      else
        (let matches = count_matches post_text keywords
         in min 100 (py_trunc (fmul (py_truediv matches (int (length keywords))) 100))))"

text \<open>The first argument of the methods below is \<open>self.use_improved_scoring\<close>.\<close>

definition calculate_struggle_detection :: "bool \<Rightarrow> string \<Rightarrow> int" where
  "calculate_struggle_detection use_improved_scoring post_text =
     (if \<not> use_improved_scoring then
        (let score = 0;
             score = add_matches 20 post_text high_urgency score;
             score = add_matches 10 post_text medium_urgency score;
             score = (if str_in ''?'' post_text then score + 15 else score)
         in min 100 score)
      else
        (let score = 0;
             score = add_matches_dict 25 post_text active_struggle_patterns score;
             score = add_matches 15 post_text high_urgency score;
             score = add_matches 8 post_text medium_urgency score;
             score = (if str_in ''?'' post_text then score + 20 else score);
             score = add_matches_dict (- 30) post_text success_story_patterns score;
             score = (if currency_amount post_text then score - 25 else score);
             score = (if str_in ''i will not promote'' post_text then score - 15 else score)
         in max 0 (min 100 score)))"

fun conflict_loop :: "bool \<Rightarrow> string \<Rightarrow> string list \<Rightarrow> int \<Rightarrow> int" where
  "conflict_loop by_business text [] penalty = penalty"
| "conflict_loop by_business text (other_business # rest) penalty =
     (let other_keywords =
            (if by_business then get_keywords_for_selection (Some other_business) None
             else get_keywords_for_selection None (Some other_business));
          matches = count_matches text other_keywords
      in conflict_loop by_business text rest (if matches \<ge> 2 then penalty + 15 else penalty))"

definition calculate_business_conflict_penalty :: "string \<Rightarrow> string option \<Rightarrow> string option \<Rightarrow> int" where
  "calculate_business_conflict_penalty post_text business_type industry_type =
     (let penalty = 0;
          all_businesses =
            (if truthy business_type then map fst BUSINESS_KEYWORDS else map fst INDUSTRY_KEYWORDS);
          target = py_or business_type industry_type
      in case target of
           None \<Rightarrow> penalty
         | Some t \<Rightarrow>
             if t \<in> set all_businesses then
               (let other_businesses = filter (\<lambda>b. b \<noteq> t) all_businesses
                in conflict_loop (truthy business_type) post_text (take 3 other_businesses) penalty)
             else penalty)"

definition calculate_business_relevance :: "bool \<Rightarrow> string \<Rightarrow> string option \<Rightarrow> string option \<Rightarrow> int" where
  "calculate_business_relevance use_improved_scoring post_text business_type industry_type =
     (if \<not> use_improved_scoring then
        min 100 (add_matches 5 post_text business_keywords 0)
      else if \<not> truthy business_type \<and> \<not> truthy industry_type then 0
      else
        (let target_keywords = get_keywords_for_selection business_type industry_type
         in if target_keywords = [] then 0
            else
              (let business_relevance = calculate_business_relevance_score post_text target_keywords;
                   conflict_penalty =
                     calculate_business_conflict_penalty post_text business_type industry_type;
                   final_score = max 0 (business_relevance - conflict_penalty)
               in min 100 final_score)))"

definition determine_urgency_level :: "string \<Rightarrow> string" where
  "determine_urgency_level post_text =
     (let high_urgency_count = count_matches post_text high_urgency;
          medium_urgency_count = count_matches post_text medium_urgency
      in if high_urgency_count \<ge> 2 then ''High''
         else if high_urgency_count \<ge> 1 \<or> medium_urgency_count \<ge> 2 then ''Medium''
         else ''Low'')"

record RelevanceScore =
  overall_score :: int
  keyword_match :: int
  struggle_detection :: int
  business_relevance :: int
  urgency_level :: string

text \<open>
  The post dictionary of \<open>analyze_post_relevance\<close> is read at two keys; each is absent
  (\<open>None\<close> here, the default \<open>''\<close> applies) or holds a value. The literals
  \<open>0.3\<close>, \<open>0.6\<close>, ... denote the nearest floats \<open>fl (3 / 10)\<close>, \<open>fl (6 / 10)\<close>, ...
\<close>

record scored_post =
  sp_title :: "pyval option"
  sp_text :: "pyval option"

definition dict_get :: "pyval option \<Rightarrow> pyval" where
  "dict_get v = (case v of None \<Rightarrow> PStr [] | Some x \<Rightarrow> x)"

definition analyze_post_relevance ::
  "bool \<Rightarrow> scored_post \<Rightarrow> string list \<Rightarrow> string option \<Rightarrow> string option \<Rightarrow> RelevanceScore" where
  "analyze_post_relevance use_improved_scoring post keywords business_type industry_type =
     (let post_text =
            lower (py_format (dict_get (sp_title post)) @ '' '' @ py_format (dict_get (sp_text post)));
          keyword_score = calculate_keyword_match post_text keywords;
          struggle_score = calculate_struggle_detection use_improved_scoring post_text;
          business_score =
            calculate_business_relevance use_improved_scoring post_text business_type industry_type;
          urgency = determine_urgency_level post_text;
          overall =
            (if use_improved_scoring then
               py_trunc (fadd (fadd (fmul (of_int keyword_score) (fl (3 / 10)))
                                    (fmul (of_int struggle_score) (fl (6 / 10))))
                              (fmul (of_int business_score) (fl (1 / 10))))
             else
               py_trunc (fadd (fadd (fmul (of_int keyword_score) (fl (4 / 10)))
                                    (fmul (of_int struggle_score) (fl (4 / 10))))
                              (fmul (of_int business_score) (fl (2 / 10)))))
      in \<lparr>overall_score = overall, keyword_match = keyword_score,
          struggle_detection = struggle_score, business_relevance = business_score,
          urgency_level = urgency\<rparr>)"

section \<open>Closed forms of the scores\<close>

text \<open>
  \<open>n_matched text ps\<close> is the number of entries of \<open>ps\<close> (repetitions counted) that
  occur in \<open>text\<close>; \<open>all_patterns d\<close> lists the phrases of every family of a phrase
  dictionary; \<open>families_matched text d\<close> is the number of families of \<open>d\<close> with at
  least one phrase in \<open>text\<close>.
\<close>

definition n_matched :: "string \<Rightarrow> string list \<Rightarrow> int" where
  "n_matched text ps = int (length (filter (\<lambda>p. str_in p text) ps))"

definition all_patterns :: "(string \<times> string list) list \<Rightarrow> string list" where
  "all_patterns d = concat (map snd d)"

definition families_matched :: "string \<Rightarrow> (string \<times> string list) list \<Rightarrow> int" where
  "families_matched text d =
     int (length (filter (\<lambda>(category, patterns). list_ex (\<lambda>p. str_in p text) patterns) d))"

text \<open>
  The struggle score as the specification words it: the success-story penalty is 30
  for each family matched.
\<close>

definition struggle_detection_per_family :: "string \<Rightarrow> int" where
  "struggle_detection_per_family text =
     max 0 (min 100
       (25 * n_matched text (all_patterns active_struggle_patterns)
        + 15 * n_matched text high_urgency
        + 8 * n_matched text medium_urgency
        + (if str_in ''?'' text then 20 else 0)
        - 30 * families_matched text success_story_patterns
        - (if currency_amount text then 25 else 0)
        - (if str_in ''i will not promote'' text then 15 else 0)))"

text \<open>
  The keyword-match score as the specification words it: the distinct supplied
  keywords found in the text, as a rounded percentage of the supplied keywords.
\<close>

definition keyword_match_spec :: "string \<Rightarrow> string list \<Rightarrow> int" where
  "keyword_match_spec text keywords =
     (if keywords = [] then 0
      else min 100 (round (100 * rat_of_int (int (length (remdups (filter (\<lambda>k. str_in k text) keywords))))
                             / rat_of_int (int (length keywords)))))"







section \<open>Keyword tables of the fast filter\<close>

text \<open>
  \<open>BUSINESS_MAPPINGS\<close> and \<open>INDUSTRY_MAPPINGS\<close> (app/services/business_mapping.py) hold
  the \<open>"keywords"\<close> list of each entry; \<open>SIMPLIFIED_SUBREDDIT_MAPPINGS\<close>
  (app/services/tiered_subreddit_mapping.py) holds the \<open>"primary"\<close> list of each entry.
\<close>

definition BUSINESS_MAPPINGS :: "(string \<times> string list) list" where
  "BUSINESS_MAPPINGS =
     [
      (''Gyms / Fitness Studios'',
       [''gym'', ''fitness'', ''workout'', ''personal training'', ''fitness studio'',
        ''membership'', ''trainer'', ''exercise'']),
      (''SaaS Companies'',
       [''saas'', ''software'', ''app'', ''platform'', ''subscription'', ''mrr'', ''arr'',
        ''users'', ''customers'', ''startup'', ''founder'']),
      (''E-commerce Stores'',
       [''ecommerce'', ''online store'', ''shopify'', ''amazon'', ''selling'', ''products'',
        ''inventory'', ''sales'', ''customers'']),
      (''Marketing Agencies'',
       [''marketing'', ''agency'', ''advertising'', ''seo'', ''social media'', ''campaigns'',
        ''clients'', ''digital marketing'']),
      (''Freelance Designers'',
       [''freelance'', ''design'', ''graphic design'', ''logo'', ''branding'', ''client'',
        ''portfolio'', ''creative'']),
      ((''Coffee Shops / Caf'' @ [CHR 0xE9] @ ''s''),
       [''coffee'', ''cafe'', ''restaurant'', ''food'', ''beverage'', ''customers'', ''menu'',
        ''location'']),
      (''Online Course Creators'',
       [''course'', ''online learning'', ''education'', ''teaching'', ''students'',
        ''content'', ''platform'']),
      (''Local Service Businesses'',
       [''local business'', ''service'', ''contractor'', ''home improvement'', ''repair'',
        ''cleaning'', ''maintenance'']),
      (''App Developers'',
       [''app'', ''mobile'', ''development'', ''programming'', ''ios'', ''android'', ''users'',
        ''downloads'']),
      (''Consultants / Coaches'',
       [''consulting'', ''coaching'', ''advisor'', ''mentor'', ''client'', ''consultation'',
        ''strategy'']),
      (''Jobs and Hiring'',
       [''job search'', ''resume help'', ''interview advice'', ''job leads'',
        ''career change'', ''unemployment'', ''job application'', ''hiring process'',
        ''job market'', ''career advice'', ''job openings'', ''job hunting tips''])
     ]"

definition INDUSTRY_MAPPINGS :: "(string \<times> string list) list" where
  "INDUSTRY_MAPPINGS =
     [
      (''Fitness'',
       [''gym'', ''fitness'', ''workout'', ''personal training'', ''fitness studio'',
        ''membership'', ''trainer'', ''exercise'']),
      (''SaaS / Tech'',
       [''saas'', ''software'', ''app'', ''platform'', ''subscription'', ''mrr'', ''arr'',
        ''users'', ''customers'', ''startup'', ''founder'']),
      (''E-commerce'',
       [''ecommerce'', ''online store'', ''shopify'', ''amazon'', ''selling'', ''products'',
        ''inventory'', ''sales'', ''customers'']),
      (''Marketing & Advertising'',
       [''marketing'', ''agency'', ''advertising'', ''seo'', ''social media'', ''campaigns'',
        ''clients'', ''digital marketing'']),
      (''Education / Edtech'',
       [''course'', ''online learning'', ''education'', ''teaching'', ''students'',
        ''content'', ''platform'']),
      (''Food & Beverage'',
       [''coffee'', ''cafe'', ''restaurant'', ''food'', ''beverage'', ''customers'', ''menu'',
        ''location'']),
      (''Local Services'',
       [''local business'', ''service'', ''contractor'', ''home improvement'', ''repair'',
        ''cleaning'', ''maintenance'']),
      (''Finance / Fintech'',
       [''finance'', ''fintech'', ''banking'', ''investment'', ''money'', ''financial'',
        ''finances'']),
      (''Freelancers / Creatives'',
       [''freelance'', ''design'', ''graphic design'', ''logo'', ''branding'', ''client'',
        ''portfolio'', ''creative''])
     ]"

definition SIMPLIFIED_SUBREDDIT_MAPPINGS :: "(string \<times> string list) list" where
  "SIMPLIFIED_SUBREDDIT_MAPPINGS =
     [
      (''SaaS Companies'',
       [''SaaS'', ''startups'', ''Entrepreneur'']),
      (''App Developers'',
       [''SaaS'', ''startups'', ''Entrepreneur'']),
      (''Gyms / Fitness Studios'',
       [''FitnessBusiness'', ''GymOwners'', ''PersonalTraining'']),
      (''E-commerce Stores'',
       [''ecommerce'', ''dropshipping'', ''Shopify'']),
      (''Marketing Agencies'',
       [''marketing'', ''SEO'', ''digital_marketing'']),
      (''Freelance Designers'',
       [''freelance'', ''graphic_design'', ''Design'']),
      ((''Coffee Shops / Caf'' @ [CHR 0xE9] @ ''s''),
       [''CoffeeShopOwners'', ''Coffee'', ''Barista'']),
      (''Online Course Creators'',
       [''online_instructors'', ''InstructionalDesign'', ''edtech'']),
      (''Local Service Businesses'',
       [''smallbusiness'', ''Entrepreneur'', ''LocalSEO'']),
      (''Consultants / Coaches'',
       [''consulting'', ''Coaching'', ''Entrepreneur'']),
      (''Jobs and Hiring'',
       [''jobs'', ''jobhunting'', ''layoffs'']),
      (''Fitness'',
       [''FitnessBusiness'', ''GymOwners'', ''PersonalTraining'']),
      (''SaaS / Tech'',
       [''SaaS'', ''startups'', ''Entrepreneur'']),
      (''E-commerce'',
       [''ecommerce'', ''dropshipping'', ''Shopify'']),
      (''Marketing & Advertising'',
       [''marketing'', ''SEO'', ''digital_marketing'']),
      (''Education / Edtech'',
       [''online_instructors'', ''InstructionalDesign'', ''edtech'']),
      (''Food & Beverage'',
       [''CoffeeShopOwners'', ''Coffee'', ''Barista'']),
      (''Local Services'',
       [''smallbusiness'', ''Entrepreneur'', ''LocalSEO'']),
      (''Finance / Fintech'',
       [''Fintech'', ''PersonalFinance'', ''FinancialPlanning'']),
      (''Freelancers / Creatives'',
       [''freelance'', ''graphic_design'', ''Design'']),
      (''Consulting / Coaching'',
       [''consulting'', ''Coaching'', ''Entrepreneur''])
     ]"

definition struggle_indicators :: "string list" where
  "struggle_indicators =
     [''struggling'', ''help'', ''can't'', ''cannot'', ''can not'', ''trouble'', ''problem'',
      ''issue'', ''stuck'', ''frustrated'', ''overwhelmed'', ''desperate'', ''urgent'',
      ''failing'', ''lost'', ''losing'', ''declining'', ''first client'', ''first customer'',
      ''no customers'', ''no clients'', ''getting clients'', ''customer acquisition'',
      ''lead generation'', ''need help'', ''looking for'', ''how to'', ''what should'',
      ''any advice'']"

section \<open>Fast lead filter (app/services/fast_lead_filter.py)\<close>

text \<open>The exceptions the model distinguishes.\<close>

datatype py_error =
    AttributeError
  | TypeError
  | ValueError
  | ValidationError
  | ZeroDivisionError
  | ServiceError

text \<open>
  A post dictionary, by the keys the filter reads. A text key is absent (\<open>None\<close>
  here) or holds a \<open>str\<close> or \<open>None\<close>; the numeric keys are absent or hold a number;
  \<open>"relevance_score"\<close> is the key the filter itself writes.
\<close>

record post =
  p_title :: "pyval option"
  p_content :: "pyval option"
  p_subreddit :: "pyval option"
  p_permalink :: "pyval option"
  p_author :: "pyval option"
  p_created_utc :: "rat option"
  p_score :: "int option"
  p_relevance_score :: "int option"

text \<open>The pydantic model \<open>Lead\<close> (app/models/lead.py).\<close>

record Lead =
  lead_title :: string
  lead_subreddit :: string
  lead_snippet :: string
  lead_permalink :: string
  lead_author :: string
  lead_created_utc :: rat
  lead_score :: int
  lead_matched_keywords :: "string list"
  lead_ai_relevance_score :: "int option"
  lead_urgency_level :: "string option"
  lead_business_context :: "string option"
  lead_problem_category :: "string option"
  lead_ai_summary :: "string option"

text \<open>The metrics dictionary of \<open>filter_posts\<close>; \<open>"results_returned"\<close> is absent until the update.\<close>

record filter_metrics =
  m_posts_analyzed :: int
  m_posts_filtered :: int
  m_summaries_generated :: int
  m_tokens_used :: int
  m_cost :: rat
  m_filter_method :: string
  m_summary_method :: string
  m_results_returned :: "int option"

text \<open>\<open>v.lower()\<close> on a dictionary value: \<open>None\<close> has no such method.\<close>

definition value_lower :: "pyval \<Rightarrow> py_error + string" where
  "value_lower v = (case v of PStr s \<Rightarrow> Inr (lower s) | PNone \<Rightarrow> Inl AttributeError)"

text \<open>
  \<open>\w\<close> on code points below 256: letters, digits and numeric characters, and the
  underscore. \<open>re.findall(r'\b\w+\b', s)\<close> lists the maximal runs of such characters.
\<close>

definition is_word_char :: "char \<Rightarrow> bool" where
  "is_word_char c =
     (let n = (of_char c :: nat)
      in (48 \<le> n \<and> n \<le> 57) \<or> (65 \<le> n \<and> n \<le> 90) \<or> n = 95 \<or> (97 \<le> n \<and> n \<le> 122)
         \<or> n = 170 \<or> n = 178 \<or> n = 179 \<or> n = 181 \<or> n = 185 \<or> n = 186
         \<or> (188 \<le> n \<and> n \<le> 190) \<or> (192 \<le> n \<and> n \<le> 214) \<or> (216 \<le> n \<and> n \<le> 246)
         \<or> (248 \<le> n \<and> n \<le> 255))"

fun runs_of :: "(char \<Rightarrow> bool) \<Rightarrow> string \<Rightarrow> string \<Rightarrow> string list" where
  "runs_of keep cur [] = (if cur = [] then [] else [cur])"
| "runs_of keep cur (c # s) =
     (if keep c then runs_of keep (cur @ [c]) s
      else (if cur = [] then [] else [cur]) @ runs_of keep [] s)"

definition find_words :: "string \<Rightarrow> string list" where
  "find_words s = runs_of is_word_char [] s"

text \<open>\<open>s.split()\<close>: the maximal runs of characters that are not whitespace.\<close>

definition py_split :: "string \<Rightarrow> string list" where
  "py_split s = runs_of (\<lambda>c. \<not> is_space c) [] s"

definition stopwords :: "string list" where
  "stopwords =
     [''the'', ''a'', ''an'', ''and'', ''or'', ''but'', ''in'', ''on'', ''at'', ''to'', ''for'',
      ''of'', ''with'', ''by'', ''is'', ''are'', ''was'', ''were'', ''be'', ''been'', ''being'',
      ''have'', ''has'', ''had'', ''do'', ''does'', ''did'', ''will'', ''would'', ''could'',
      ''should'', ''may'', ''might'', ''must'', ''can'', ''cannot'']"

text \<open>
  \<open>AIEnhancer._extract_keywords\<close>. The source returns \<open>list(set(keywords))\<close>, whose
  order is not determined; the model keeps the order of \<open>remdups\<close>. The filter only
  sums over this list.
\<close>

definition extract_keywords :: "string \<Rightarrow> string list" where
  "extract_keywords text =
     (let words = find_words (lower text);
          keywords = filter (\<lambda>word. word \<notin> set stopwords \<and> length word > 2) words
      in remdups keywords)"

text \<open>
  \<open>mapping_keywords m k\<close> is \<open>m.get(k, {}).get("keywords", [])\<close>; \<open>extend_keywords\<close> is
  the effect of \<open>.extend\<close> on that list, which is the list stored in the dictionary when
  \<open>k\<close> is one of its keys.
\<close>

definition mapping_keywords :: "(string \<times> string list) list \<Rightarrow> string \<Rightarrow> string list" where
  "mapping_keywords m k = (case map_of m k of None \<Rightarrow> [] | Some ks \<Rightarrow> ks)"

definition extend_keywords ::
  "(string \<times> string list) list \<Rightarrow> string \<Rightarrow> string list \<Rightarrow> (string \<times> string list) list" where
  "extend_keywords m k extra =
     (case map_of m k of
        None \<Rightarrow> m
      | Some ks \<Rightarrow> map (\<lambda>(k', ks'). if k' = k then (k', ks' @ extra) else (k', ks')) m)"

text \<open>
  The body of the loop over the posts in \<open>_rule_based_filter\<close>: the score of one post,
  or the exception raised on the way.
\<close>

fun add_lower_matches :: "int \<Rightarrow> string \<Rightarrow> string list \<Rightarrow> int \<Rightarrow> int" where
  "add_lower_matches w text [] score = score"
| "add_lower_matches w text (k # ks) score =
     add_lower_matches w text ks (if str_in (lower k) text then score + w else score)"

fun add_word_matches :: "string \<Rightarrow> string list \<Rightarrow> int \<Rightarrow> int" where
  "add_word_matches text [] score = score"
| "add_word_matches text (word # ws) score =
     add_word_matches text ws (if length word > 3 \<and> str_in word text then score + 1 else score)"

definition score_post ::
  "string list \<Rightarrow> string list \<Rightarrow> string \<Rightarrow> post \<Rightarrow> py_error + int" where
  "score_post all_keywords enhanced_keywords problem_description p =
     (case value_lower (dict_get (p_title p)) of
        Inl e \<Rightarrow> Inl e
      | Inr title \<Rightarrow>
          (case value_lower (dict_get (p_content p)) of
             Inl e \<Rightarrow> Inl e
           | Inr content \<Rightarrow>
               (let text = title @ '' '' @ content;
                    score = 0;
                    score = add_lower_matches 3 text all_keywords score;
                    score = add_matches 2 text struggle_indicators score;
                    score = add_lower_matches 4 text enhanced_keywords score;
                    problem_words = py_split (lower problem_description);
                    score = add_word_matches text problem_words score
                in Inr score)))"

text \<open>
  The loop itself: an exception in the body leaves the loop and the function. The
  accumulator holds the posts kept so far, in order.
\<close>

fun filter_loop ::
  "int \<Rightarrow> string list \<Rightarrow> string list \<Rightarrow> string \<Rightarrow> post list \<Rightarrow> post list
     \<Rightarrow> py_error + post list" where
  "filter_loop threshold all_keywords enhanced_keywords problem_description [] filtered_posts =
     Inr filtered_posts"
| "filter_loop threshold all_keywords enhanced_keywords problem_description (p # posts) filtered_posts =
     (case score_post all_keywords enhanced_keywords problem_description p of
        Inl e \<Rightarrow> Inl e
      | Inr score \<Rightarrow>
          (let p' = p\<lparr>p_relevance_score := Some score\<rparr>
           in filter_loop threshold all_keywords enhanced_keywords problem_description posts
                (if score \<ge> threshold then filtered_posts @ [p'] else filtered_posts)))"

definition relevance_key :: "post \<Rightarrow> int" where
  "relevance_key p = (case p_relevance_score p of None \<Rightarrow> 0 | Some s \<Rightarrow> s)"

text \<open>
  \<open>_rule_based_filter\<close> returns the filtered posts, or the exception, and the state of
  \<open>BUSINESS_MAPPINGS\<close> after the call. \<open>list.sort(key, reverse=True)\<close> is stable.
\<close>

definition rule_based_filter ::
  "int \<Rightarrow> (string \<times> string list) list \<Rightarrow> post list \<Rightarrow> string \<Rightarrow> string \<Rightarrow> string option
     \<Rightarrow> (py_error + post list) \<times> (string \<times> string list) list" where
  "rule_based_filter threshold mappings posts problem_description business_type industry_type =
     (let industry_keywords =
            (case industry_type of
               None \<Rightarrow> []
             | Some i \<Rightarrow> if i \<noteq> [] then mapping_keywords INDUSTRY_MAPPINGS i else []);
          business_keywords = mapping_keywords mappings business_type @ industry_keywords;
          mappings' = extend_keywords mappings business_type industry_keywords;
          enhanced_keywords = extract_keywords problem_description;
          all_keywords = business_keywords @ enhanced_keywords
      in case filter_loop threshold all_keywords enhanced_keywords problem_description posts [] of
           Inl e \<Rightarrow> (Inl e, mappings')
         | Inr filtered_posts \<Rightarrow>
             (Inr (sort_key (\<lambda>p. - relevance_key p) filtered_posts), mappings'))"

text \<open>
  The constructor call \<open>Lead(...)\<close> for one post: \<open>len\<close> and the slice need a \<open>str\<close>
  under \<open>"content"\<close>, and the model validation needs a \<open>str\<close> for each of the five
  text fields.
\<close>

definition required_str :: "pyval \<Rightarrow> py_error + string" where
  "required_str v = (case v of PStr s \<Rightarrow> Inr s | PNone \<Rightarrow> Inl ValidationError)"

definition make_snippet :: "pyval \<Rightarrow> py_error + pyval" where
  "make_snippet content =
     (case content of
        PNone \<Rightarrow> Inl TypeError
      | PStr s \<Rightarrow> Inr (PStr (if length s > 200 then take 200 s @ ''...'' else s)))"

definition make_lead :: "post \<Rightarrow> string \<Rightarrow> py_error + Lead" where
  "make_lead p business_type =
     (case make_snippet (dict_get (p_content p)) of
        Inl e \<Rightarrow> Inl e
      | Inr snippet \<Rightarrow>
     (case required_str (dict_get (p_title p)) of
        Inl e \<Rightarrow> Inl e
      | Inr title \<Rightarrow>
     (case required_str (dict_get (p_subreddit p)) of
        Inl e \<Rightarrow> Inl e
      | Inr subreddit \<Rightarrow>
     (case required_str snippet of
        Inl e \<Rightarrow> Inl e
      | Inr snippet_text \<Rightarrow>
     (case required_str (dict_get (p_permalink p)) of
        Inl e \<Rightarrow> Inl e
      | Inr permalink \<Rightarrow>
     (case required_str (dict_get (p_author p)) of
        Inl e \<Rightarrow> Inl e
      | Inr author \<Rightarrow>
          Inr \<lparr>lead_title = title, lead_subreddit = subreddit, lead_snippet = snippet_text,
               lead_permalink = permalink, lead_author = author,
               lead_created_utc = (case p_created_utc p of None \<Rightarrow> 0 | Some t \<Rightarrow> t),
               lead_score = (case p_score p of None \<Rightarrow> 0 | Some s \<Rightarrow> s),
               lead_matched_keywords = [],
               lead_ai_relevance_score = Some (relevance_key p),
               lead_urgency_level = Some ''Medium'',
               lead_business_context = Some business_type,
               lead_problem_category = Some ''General'',
               lead_ai_summary = Some []\<rparr>))))))"

text \<open>\<open>_create_leads_from_posts\<close>: a post whose \<open>Lead\<close> cannot be built is skipped.\<close>

fun create_leads_from_posts :: "post list \<Rightarrow> string \<Rightarrow> Lead list" where
  "create_leads_from_posts [] business_type = []"
| "create_leads_from_posts (p # posts) business_type =
     (case make_lead p business_type of
        Inl e \<Rightarrow> create_leads_from_posts posts business_type
      | Inr lead \<Rightarrow> lead # create_leads_from_posts posts business_type)"

text \<open>
  \<open>_generate_smart_summary\<close>: the \<open>try\<close> block (title clean-up, business term, the
  templates and the hash of the title) is the parameter \<open>summary_body\<close>; the handler
  returns the fallback text.
\<close>

definition generate_smart_summary ::
  "(Lead \<Rightarrow> py_error + string) \<Rightarrow> Lead \<Rightarrow> string \<Rightarrow> string" where
  "generate_smart_summary summary_body lead problem_description =
     (case summary_body lead of
        Inr summary \<Rightarrow> summary
      | Inl e \<Rightarrow> ''Post about '' @ lower problem_description @ '' - '' @ take 80 (lead_title lead)
                  @ ''...'')"

definition add_simple_summaries ::
  "(Lead \<Rightarrow> py_error + string) \<Rightarrow> Lead list \<Rightarrow> string \<Rightarrow> Lead list" where
  "add_simple_summaries summary_body leads problem_description =
     map (\<lambda>lead. lead\<lparr>lead_ai_summary :=
                          Some (generate_smart_summary summary_body lead problem_description)\<rparr>)
       leads"

text \<open>
  \<open>filter_posts\<close> returns the leads and the metrics, and the state of
  \<open>BUSINESS_MAPPINGS\<close> after the call. Any exception of the steps ends in the handler,
  which returns the empty list.
\<close>

definition filter_posts ::
  "(Lead \<Rightarrow> py_error + string) \<Rightarrow> int \<Rightarrow> (string \<times> string list) list \<Rightarrow> post list \<Rightarrow> string
     \<Rightarrow> string \<Rightarrow> string option
     \<Rightarrow> Lead list \<times> filter_metrics \<times> (string \<times> string list) list" where
  "filter_posts summary_body threshold mappings posts problem_description business_type industry_type =
     (let last_metrics =
            \<lparr>m_posts_analyzed = int (length posts), m_posts_filtered = 0,
             m_summaries_generated = 0, m_tokens_used = 0, m_cost = 0,
             m_filter_method = ''rule_based'', m_summary_method = ''openai'',
             m_results_returned = None\<rparr>
      in case rule_based_filter threshold mappings posts problem_description business_type
                industry_type of
           (Inl e, mappings') \<Rightarrow> ([], last_metrics, mappings')
         | (Inr filtered_posts, mappings') \<Rightarrow>
             (let leads = create_leads_from_posts filtered_posts business_type;
                  leads = (if leads \<noteq> []
                           then add_simple_summaries summary_body leads problem_description
                           else leads);
                  last_metrics = last_metrics
                    \<lparr>m_posts_filtered := int (length filtered_posts),
                     m_results_returned := Some (int (length leads))\<rparr>
              in (leads, last_metrics, mappings')))"

section \<open>The search endpoint (app/routers/leads.py)\<close>

text \<open>
  \<open>int(s)\<close> on a \<open>str\<close>: surrounding whitespace, an optional sign, and decimal digits
  that single underscores may separate; \<open>None\<close> stands for \<open>ValueError\<close>. The
  interpreter's limit on the number of digits is outside the model.
\<close>

fun valid_digits_from :: "bool \<Rightarrow> string \<Rightarrow> bool" where
  "valid_digits_from prev_digit [] = prev_digit"
| "valid_digits_from prev_digit (c # s) =
     (if is_digit c then valid_digits_from True s
      else if c = CHR ''_'' \<and> prev_digit then valid_digits_from False s
      else False)"

definition digits_value :: "string \<Rightarrow> int" where
  "digits_value s = foldl (\<lambda>acc c. acc * 10 + (int (of_char c) - 48)) 0 (filter is_digit s)"

definition py_int :: "string \<Rightarrow> int option" where
  "py_int text =
     (let s = strip text;
          negative = (s \<noteq> [] \<and> hd s = CHR ''-'');
          body = (if s \<noteq> [] \<and> (hd s = CHR ''-'' \<or> hd s = CHR ''+'') then tl s else s)
      in if valid_digits_from False body
         then Some (if negative then - digits_value body else digits_value body)
         else None)"

record LeadSearchRequest =
  problem_description :: string
  business :: "string option"
  industry :: "string option"
  user_id :: "string option"
  result_count :: int

text \<open>The usage columns of a row of the \<open>users\<close> table; every column holds a number.\<close>

record User =
  results_used :: int
  posts_analyzed :: int
  total_tokens_used :: int
  total_cost :: rat

text \<open>
  The response, without its presentation fields (message, timestamp, tier
  information and the metrics dictionary).
\<close>

record LeadSearchResponse =
  resp_leads :: "Lead list"
  resp_total_found :: int
  resp_result_age_hours :: rat
  resp_results_remaining :: int
  resp_posts_remaining :: int
  resp_posts_analyzed :: int

text \<open>\<open>HTTPException(status_code, detail)\<close>; a 500 carries the exception it reports.\<close>

datatype http_error = HTTP400 string | HTTP500 py_error

text \<open>
  The state the endpoint works on: the \<open>users\<close> table, the global result cache, the
  global \<open>BUSINESS_MAPPINGS\<close>, and a log of the accesses to the database, the cache and
  Reddit, in the order they happen. Database operations are taken to succeed.
\<close>

datatype event =
    DbQueryUser int
  | CacheLookup string
  | RedditFetch "string list" string int
  | CacheStore string
  | DbCommit
  | MetricsInsert

record world =
  db_users :: "int \<rightharpoonup> User"
  result_cache :: "Lead list cache"
  business_mappings :: "(string \<times> string list) list"
  events :: "event list"

text \<open>
  What the endpoint gets from outside: whether the two service constructors raise, the
  posts Reddit returns, the clock at the cache lookup and at the cache store, and the
  parameters of the filter.
\<close>

record environment =
  env_init_error :: "py_error option"
  env_fetch_posts :: "string list \<Rightarrow> string \<Rightarrow> int \<Rightarrow> post list"
  env_time_at_lookup :: rat
  env_time_at_store :: rat
  env_summary_body :: "Lead \<Rightarrow> py_error + string"
  env_threshold :: int

text \<open>
  The four checks at the head of \<open>search_leads\<close>: the detail of the first that fails.
  \<open>validation_details\<close> lists the four details.
\<close>

definition validation_details :: "string list" where
  "validation_details =
     [''Either business or industry must be selected'',
      ''Cannot select both business and industry'',
      ''Problem description is required'',
      ''Result count must be between 1 and 150'']"

definition validate_request :: "LeadSearchRequest \<Rightarrow> string option" where
  "validate_request request =
     (if \<not> truthy (business request) \<and> \<not> truthy (industry request)
      then Some ''Either business or industry must be selected''
      else if truthy (business request) \<and> truthy (industry request)
      then Some ''Cannot select both business and industry''
      else if strip (problem_description request) = []
      then Some ''Problem description is required''
      else if result_count request < 1 \<or> result_count request > 150
      then Some ''Result count must be between 1 and 150''
      else None)"

text \<open>
  The block "Check user usage if user_id is provided": the remaining figures, or the
  quota rejection.
\<close>

definition check_user_usage ::
  "world \<Rightarrow> LeadSearchRequest \<Rightarrow> (http_error + int \<times> int) \<times> world" where
  "check_user_usage w request =
     (case user_id request of
        None \<Rightarrow> (Inr (150, 2250), w)
      | Some uid \<Rightarrow>
          if uid = [] then (Inr (150, 2250), w)
          else
            (case py_int uid of
               None \<Rightarrow> (Inr (150, 2250), w)
             | Some n \<Rightarrow>
                 (let w' = w\<lparr>events := events w @ [DbQueryUser n]\<rparr>
                  in case db_users w n of
                       None \<Rightarrow> (Inr (150, 2250), w')
                     | Some user \<Rightarrow>
                         (case validate_user_limits (results_used user) (posts_analyzed user)
                                 (result_count request) of
                            (is_valid, error_msg, posts_needed, remaining_results, remaining_posts) \<Rightarrow>
                              if \<not> is_valid then (Inl (HTTP400 error_msg), w')
                              else (Inr (remaining_results, remaining_posts), w')))))"

text \<open>
  \<open>get_beta_info(business_type)["subreddits"]\<close>. The fallback slices what
  \<open>BUSINESS_MAPPINGS.get(business_type, [])\<close> returns: the empty list, or an entry of the
  dictionary, which cannot be sliced.
\<close>

definition get_beta_subreddits ::
  "(string \<times> string list) list \<Rightarrow> string \<Rightarrow> py_error + string list" where
  "get_beta_subreddits mappings business_type =
     (case map_of SIMPLIFIED_SUBREDDIT_MAPPINGS business_type of
        Some primary \<Rightarrow> Inr primary
      | None \<Rightarrow>
          (case map_of mappings business_type of
             None \<Rightarrow> Inr (take 3 [])
           | Some entry \<Rightarrow> Inl TypeError))"

text \<open>
  \<open>request.business or request.industry\<close>; the checks have made sure that it is a
  non-empty \<open>str\<close>.
\<close>

definition selected_type :: "LeadSearchRequest \<Rightarrow> string" where
  "selected_type request =
     (case py_or (business request) (industry request) of Some t \<Rightarrow> t | None \<Rightarrow> [])"

definition caller_key :: "LeadSearchRequest \<Rightarrow> string" where
  "caller_key request =
     (case user_id request of
        Some uid \<Rightarrow> if uid \<noteq> [] then uid else ''anonymous''
      | None \<Rightarrow> ''anonymous'')"

text \<open>
  The body of the \<open>try\<close> up to the usage update: the leads to return, their age and the
  posts-analyzed figure of the metrics, or the exception raised.
\<close>

definition run_search ::
  "environment \<Rightarrow> world \<Rightarrow> LeadSearchRequest \<Rightarrow> int
     \<Rightarrow> (py_error + Lead list \<times> rat \<times> int) \<times> world" where
  "run_search env w request posts_needed =
     (case env_init_error env of
        Some e \<Rightarrow> (Inl e, w)
      | None \<Rightarrow>
     (let business_type = selected_type request
      in case get_beta_subreddits (business_mappings w) business_type of
           Inl e \<Rightarrow> (Inl e, w)
         | Inr subreddits \<Rightarrow>
     (let cache_key = generate_cache_key (problem_description request) business_type ''all_time''
                        (caller_key request) (Some (result_count request));
          (cached_result, cache') =
             get_cached_results (result_cache w) (env_time_at_lookup env)
               (problem_description request) business_type ''all_time'' (caller_key request)
               (Some (result_count request));
          w1 = w\<lparr>result_cache := cache', events := events w @ [CacheLookup cache_key]\<rparr>
      in case cached_result of
           Some (leads, result_age_hours) \<Rightarrow> (Inr (leads, result_age_hours, 0), w1)
         | None \<Rightarrow>
             if subreddits = [] then (Inl ZeroDivisionError, w1)
             else
               (let posts_per_sub = max 1 (posts_needed div int (length subreddits));
                    posts = env_fetch_posts env subreddits (problem_description request) posts_per_sub;
                    w2 = w1\<lparr>events := events w1
                              @ [RedditFetch subreddits (problem_description request) posts_per_sub]\<rparr>;
                    (leads, metrics, mappings') =
                       filter_posts (env_summary_body env) (env_threshold env) (business_mappings w2)
                         posts (problem_description request) business_type None;
                    target_leads = take (nat (result_count request)) leads;
                    cache'' =
                       cache_results (result_cache w2) (env_time_at_store env)
                         (problem_description request) business_type ''all_time''
                         (caller_key request) (target_leads, 0) (Some (result_count request));
                    w3 = w2\<lparr>business_mappings := mappings', result_cache := cache'',
                            events := events w2 @ [CacheStore cache_key]\<rparr>
                in (Inr (target_leads, 0, m_posts_analyzed metrics), w3)))))"

text \<open>
  The block "Update user usage tracking": the requested count and the posts needed are
  added to the row of an identified user, and the remaining figures are recomputed.
\<close>

definition update_usage ::
  "world \<Rightarrow> LeadSearchRequest \<Rightarrow> int \<Rightarrow> int \<times> int \<Rightarrow> (int \<times> int) \<times> world" where
  "update_usage w request posts_needed remaining =
     (case user_id request of
        None \<Rightarrow> (remaining, w)
      | Some uid \<Rightarrow>
          if uid = [] then (remaining, w)
          else
            (case py_int uid of
               None \<Rightarrow> ((150, 2250), w)
             | Some n \<Rightarrow>
                 (let w' = w\<lparr>events := events w @ [DbQueryUser n]\<rparr>
                  in case db_users w n of
                       None \<Rightarrow> ((150, 2250), w')
                     | Some user \<Rightarrow>
                         (let user' = user
                                \<lparr>results_used := results_used user + result_count request,
                                 posts_analyzed := posts_analyzed user + posts_needed,
                                 total_tokens_used := total_tokens_used user + 0,
                                 total_cost := fadd (total_cost user) 0\<rparr>;
                              w'' = w'\<lparr>db_users := (db_users w')(n \<mapsto> user'),
                                      events := events w' @ [DbCommit]\<rparr>
                          in ((150 - results_used user', 2250 - posts_analyzed user'), w'')))))"

definition search_leads ::
  "environment \<Rightarrow> world \<Rightarrow> LeadSearchRequest \<Rightarrow> (http_error + LeadSearchResponse) \<times> world" where
  "search_leads env w request =
     (case validate_request request of
        Some detail \<Rightarrow> (Inl (HTTP400 detail), w)
      | None \<Rightarrow>
     (let posts_needed = get_posts_to_scrape (result_count request)
      in case check_user_usage w request of
           (Inl err, w1) \<Rightarrow> (Inl err, w1)
         | (Inr remaining, w1) \<Rightarrow>
     (case run_search env w1 request posts_needed of
        (Inl e, w2) \<Rightarrow> (Inl (HTTP500 e), w2)
      | (Inr (leads, result_age_hours, analyzed), w2) \<Rightarrow>
          (let final_results_count = int (length leads);
               ((results_remaining, posts_remaining), w3) =
                  update_usage w2 request posts_needed remaining;
               w4 = w3\<lparr>events := events w3 @ [MetricsInsert]\<rparr>
           in (Inr \<lparr>resp_leads = leads, resp_total_found = final_results_count,
                    resp_result_age_hours = result_age_hours,
                    resp_results_remaining = results_remaining,
                    resp_posts_remaining = posts_remaining,
                    resp_posts_analyzed = analyzed\<rparr>, w4)))))"

section \<open>Example posts\<close>

text \<open>
  A post as the Reddit service delivers it, and the same post with \<open>None\<close> under
  \<open>"title"\<close>.
\<close>

definition example_post :: post where
  "example_post =
     \<lparr>p_title = Some (PStr ''Need help getting clients for my SaaS''),
      p_content = None,
      p_subreddit = Some (PStr ''SaaS''),
      p_permalink = Some (PStr ''https://www.reddit.com/r/SaaS/1''),
      p_author = Some (PStr ''alice''),
      p_created_utc = Some 1700000000,
      p_score = Some 12,
      p_relevance_score = None\<rparr>"

definition untitled_post :: post where
  "untitled_post = example_post\<lparr>p_title := Some PNone\<rparr>"

definition example_lead :: Lead where
  "example_lead =
     \<lparr>lead_title = ''Need help getting clients for my SaaS'', lead_subreddit = ''SaaS'',
      lead_snippet = [], lead_permalink = ''https://www.reddit.com/r/SaaS/1'',
      lead_author = ''alice'', lead_created_utc = 1700000000, lead_score = 12,
      lead_matched_keywords = [], lead_ai_relevance_score = Some 25,
      lead_urgency_level = Some ''Medium'', lead_business_context = Some ''SaaS Companies'',
      lead_problem_category = Some ''General'', lead_ai_summary = Some []\<rparr>"

section \<open>Example requests\<close>

text \<open>
  User 7 has used 10 results and 150 posts. The cache holds one lead for the request
  of user 7 below, stored at clock reading 1000; the lookup happens one hour later.
\<close>

definition example_user :: User where
  "example_user = \<lparr>results_used = 10, posts_analyzed = 150, total_tokens_used = 0, total_cost = 0\<rparr>"

definition example_world :: world where
  "example_world =
     \<lparr>db_users = [7 \<mapsto> example_user],
      result_cache = [''getting clients_SaaS Companies_all_time_7_20'' \<mapsto> (1000, [example_lead])],
      business_mappings = BUSINESS_MAPPINGS,
      events = []\<rparr>"

definition example_env :: environment where
  "example_env =
     \<lparr>env_init_error = None,
      env_fetch_posts = (\<lambda>subreddits query limit_per_sub. [example_post]),
      env_time_at_lookup = 4600,
      env_time_at_store = 4601,
      env_summary_body = (\<lambda>lead. Inr ''SaaS Founder looking for solutions to current challenges''),
      env_threshold = 5\<rparr>"

definition example_request :: LeadSearchRequest where
  "example_request =
     \<lparr>problem_description = ''getting clients'', business = Some ''SaaS Companies'',
      industry = None, user_id = Some ''7'', result_count = 20\<rparr>"


definition oversized_request :: LeadSearchRequest where
  "oversized_request = example_request\<lparr>result_count := 200\<rparr>"

section \<open>Facts about the float model\<close>

text \<open>
  Rounding to the nearest float is monotone and keeps the sign; the exponent brackets
  its argument.
\<close>

lemma round_half_even_of_int: "round_half_even (of_int n) = n"
  by (simp add: round_half_even_def)

lemma round_half_even_bounds: "\<lfloor>q\<rfloor> \<le> round_half_even q" "round_half_even q \<le> \<lfloor>q\<rfloor> + 1"
  by (simp_all add: round_half_even_def Let_def)

lemma round_half_even_mono:
  assumes "q \<le> r" shows "round_half_even q \<le> round_half_even r"
proof (cases "\<lfloor>q\<rfloor> = \<lfloor>r\<rfloor>")
  case True
  with assms show ?thesis
    by (auto simp add: round_half_even_def Let_def)
next
  case False
  with assms have "\<lfloor>q\<rfloor> < \<lfloor>r\<rfloor>"
    by (simp add: floor_mono order.not_eq_order_implies_strict)
  then have "round_half_even q \<le> \<lfloor>r\<rfloor>"
    using round_half_even_bounds(2) [of q] by linarith
  then show ?thesis
    using round_half_even_bounds(1) [of r] by linarith
qed

lemma powi_nonneg_eq: "0 \<le> e \<Longrightarrow> (2::rat) powi e = 2 ^ nat e"
  by (simp add: power_int_def)

lemma powi_neg_eq: "0 \<le> e \<Longrightarrow> (2::rat) powi (- e) = 1 / 2 ^ nat e"
  by (simp add: power_int_def field_simps)

lemma flog2_bounds_ge1:
  assumes "1 \<le> x"
  shows "2 powi (flog2 x) \<le> x" and "x < 2 powi (flog2 x + 1)"
proof -
  define n where "n = \<lfloor>x\<rfloor>"
  have n: "0 < n" using assms by (simp add: n_def)
  have b: "1 \<le> bitlen n" using n by (simp add: bitlen_alt_def)
  have e: "flog2 x = bitlen n - 1" using assms by (simp add: flog2_def n_def)
  from bitlen_bounds [OF n]
  have lo: "2 ^ nat (bitlen n - 1) \<le> n" and hi: "n < 2 ^ nat (bitlen n)" by simp_all
  have "(2::rat) powi (flog2 x) = of_int (2 ^ nat (bitlen n - 1))"
    using b by (simp add: e powi_nonneg_eq)
  also have "\<dots> \<le> of_int n" using lo by (simp only: of_int_le_iff)
  also have "\<dots> \<le> x" by (simp add: n_def)
  finally show "2 powi (flog2 x) \<le> x" .
  have "x < of_int (n + 1)" unfolding n_def by linarith
  also have "\<dots> \<le> of_int (2 ^ nat (bitlen n))" using hi by (simp only: of_int_le_iff)
  also have "\<dots> = (2::rat) powi (flog2 x + 1)"
    using b by (simp add: e powi_nonneg_eq)
  finally show "x < 2 powi (flog2 x + 1)" .
qed

lemma flog2_bounds_lt1:
  assumes "0 < x" "x < 1"
  shows "2 powi (flog2 x) \<le> x" and "x < 2 powi (flog2 x + 1)"
proof -
  define m where "m = \<lceil>1 / x\<rceil> - 1"
  have y: "1 < 1 / x" using assms by simp
  then have "2 \<le> \<lceil>1 / x\<rceil>" by linarith
  then have m: "0 < m" by (simp add: m_def)
  have b: "1 \<le> bitlen m" using m by (simp add: bitlen_alt_def)
  have e: "flog2 x = - bitlen m" using assms by (simp add: flog2_def m_def)
  from bitlen_bounds [OF m]
  have lo: "2 ^ nat (bitlen m - 1) \<le> m" and hi: "m < 2 ^ nat (bitlen m)" by simp_all
  have "1 / x \<le> of_int (m + 1)" unfolding m_def by linarith
  also have "\<dots> \<le> of_int (2 ^ nat (bitlen m))" using hi by (simp only: of_int_le_iff)
  finally have "1 / x \<le> 2 ^ nat (bitlen m)" by simp
  then have "1 / 2 ^ nat (bitlen m) \<le> x"
    using assms(1) by (simp add: field_simps)
  then show "2 powi (flog2 x) \<le> x"
    using b by (simp add: e powi_neg_eq)
  have "(of_int (2 ^ nat (bitlen m - 1)) :: rat) \<le> of_int m"
    using lo by (simp only: of_int_le_iff)
  then have "(2::rat) ^ nat (bitlen m - 1) \<le> of_int m" by simp
  also have "of_int m < 1 / x" unfolding m_def by linarith
  finally have "2 ^ nat (bitlen m - 1) < 1 / x" .
  then have "x < 1 / 2 ^ nat (bitlen m - 1)"
    using assms(1) by (simp add: field_simps)
  moreover have "flog2 x + 1 = - (bitlen m - 1)" by (simp add: e)
  ultimately show "x < 2 powi (flog2 x + 1)"
    using b powi_neg_eq [of "bitlen m - 1"] by simp
qed

lemma flog2_bounds:
  assumes "0 < x"
  shows "2 powi (flog2 x) \<le> x" and "x < 2 powi (flog2 x + 1)"
  using assms flog2_bounds_ge1 [of x] flog2_bounds_lt1 [of x] by (cases "1 \<le> x"; simp)+


lemma powi_pos: "0 < (2::rat) powi e"
  by (simp add: power_int_def)

lemma flog2_mono:
  assumes "0 < x" "x \<le> y"
  shows "flog2 x \<le> flog2 y"
proof (rule ccontr)
  assume "\<not> flog2 x \<le> flog2 y"
  then have "flog2 y + 1 \<le> flog2 x" by simp
  then have "(2::rat) powi (flog2 y + 1) \<le> 2 powi (flog2 x)"
    by (intro power_int_increasing) simp_all
  moreover have "y < 2 powi (flog2 y + 1)" using assms by (intro flog2_bounds) simp
  moreover have "2 powi (flog2 x) \<le> x" using assms by (intro flog2_bounds)
  ultimately show False using assms by linarith
qed

lemma fl_pos_eq:
  "0 < x \<Longrightarrow> fl x = of_int (round_half_even (x / 2 powi (flog2 x - 52))) * 2 powi (flog2 x - 52)"
  by (simp add: fl_def Let_def)

lemma fl_lower:
  assumes "0 < x" shows "2 powi (flog2 x) \<le> fl x"
proof -
  let ?u = "(2::rat) powi (flog2 x - 52)"
  have u: "0 < ?u" by (rule powi_pos)
  have split: "(2::rat) powi (flog2 x) = 2 ^ 52 * ?u"
    by (simp add: power_int_diff)
  have "of_int (2 ^ 52) \<le> x / ?u"
    using flog2_bounds(1) [OF assms] u by (simp add: split field_simps)
  then have "round_half_even (of_int (2 ^ 52)) \<le> round_half_even (x / ?u)"
    by (rule round_half_even_mono)
  then have "(2::int) ^ 52 \<le> round_half_even (x / ?u)"
    by (simp only: round_half_even_of_int)
  then have "(of_int (2 ^ 52) :: rat) \<le> of_int (round_half_even (x / ?u))"
    by (simp only: of_int_le_iff)
  then have "2 ^ 52 * ?u \<le> of_int (round_half_even (x / ?u)) * ?u"
    using u by simp
  then show ?thesis using assms by (simp only: fl_pos_eq split)
qed

lemma fl_upper:
  assumes "0 < x" shows "fl x \<le> 2 powi (flog2 x + 1)"
proof -
  let ?u = "(2::rat) powi (flog2 x - 52)"
  have u: "0 < ?u" by (rule powi_pos)
  have split: "(2::rat) powi (flog2 x + 1) = 2 ^ 53 * ?u"
    by (simp add: power_int_diff power_int_add)
  have "x < 2 ^ 53 * ?u"
    using flog2_bounds(2) [OF assms] by (simp only: split)
  then have "x / ?u \<le> of_int (2 ^ 53)"
    using u by (simp add: field_simps)
  then have "round_half_even (x / ?u) \<le> round_half_even (of_int (2 ^ 53))"
    by (rule round_half_even_mono)
  then have "round_half_even (x / ?u) \<le> (2::int) ^ 53"
    by (simp only: round_half_even_of_int)
  then have "(of_int (round_half_even (x / ?u)) :: rat) \<le> of_int (2 ^ 53)"
    by (simp only: of_int_le_iff)
  then have "of_int (round_half_even (x / ?u)) * ?u \<le> 2 ^ 53 * ?u"
    using u by simp
  then show ?thesis using assms by (simp only: fl_pos_eq split)
qed

lemma fl_mono_pos:
  assumes "0 < x" "x \<le> y"
  shows "fl x \<le> fl y"
proof (cases "flog2 x = flog2 y")
  case True
  let ?u = "(2::rat) powi (flog2 y - 52)"
  have u: "0 < ?u" by (rule powi_pos)
  have "x / ?u \<le> y / ?u" using assms u by (simp add: divide_right_mono)
  then have "round_half_even (x / ?u) \<le> round_half_even (y / ?u)"
    by (rule round_half_even_mono)
  then have "(of_int (round_half_even (x / ?u)) :: rat) \<le> of_int (round_half_even (y / ?u))"
    by (simp only: of_int_le_iff)
  then have "of_int (round_half_even (x / ?u)) * ?u \<le> of_int (round_half_even (y / ?u)) * ?u"
    using u by simp
  then show ?thesis using assms True by (simp add: fl_pos_eq)
next
  case False
  with flog2_mono [OF assms] have "flog2 x + 1 \<le> flog2 y" by simp
  then have "(2::rat) powi (flog2 x + 1) \<le> 2 powi (flog2 y)"
    by (intro power_int_increasing) simp_all
  moreover have "fl x \<le> 2 powi (flog2 x + 1)" using assms by (intro fl_upper)
  moreover have "2 powi (flog2 y) \<le> fl y" using assms by (intro fl_lower) simp
  ultimately show ?thesis by linarith
qed

lemma fl_nonneg: "0 \<le> x \<Longrightarrow> 0 \<le> fl x"
  by (simp add: fl_def Let_def sgn_if round_half_even_def powi_pos less_imp_le)

lemma fl_mono:
  assumes "0 \<le> x" "x \<le> y"
  shows "fl x \<le> fl y"
proof (cases "x = 0")
  case True
  then show ?thesis using assms fl_nonneg [of y] by (simp add: fl_def)
next
  case False
  then show ?thesis using assms by (intro fl_mono_pos) simp_all
qed

text \<open>
  A clock reading of this era (between \<open>2 ^ 30\<close> and \<open>2 ^ 31\<close> seconds) is a
  multiple of \<open>1 / 2 ^ 22\<close>; such multiples below \<open>2 ^ 31\<close> are floats, so the
  difference of two readings is computed exactly.
\<close>

lemma flog2_less:
  assumes "0 < x" "x < 2 powi n"
  shows "flog2 x < n"
proof (rule ccontr)
  assume "\<not> flog2 x < n"
  then have "n \<le> flog2 x" by simp
  then have "(2::rat) powi n \<le> 2 powi (flog2 x)"
    by (intro power_int_increasing) simp_all
  with flog2_bounds(1) [OF assms(1)] assms(2) show False by linarith
qed

lemma fl_exact_grid:
  assumes "0 < k" "k < 2 ^ 53"
  shows "fl (rat_of_int k / 2 ^ 22) = rat_of_int k / 2 ^ 22"
proof -
  define x where "x = rat_of_int k / 2 ^ 22"
  have pos: "0 < x" using assms(1) by (simp add: x_def)
  have "rat_of_int k < rat_of_int (2 ^ 53)" using assms(2) by (simp only: of_int_less_iff)
  then have "x < 2 powi 31" by (simp add: x_def field_simps)
  then have e: "flog2 x < 31" using pos by (intro flog2_less)
  define d where "d = nat (30 - flog2 x)"
  have d: "int d = 30 - flog2 x" using e by (simp add: d_def)
  have "(2::rat) powi (flog2 x - 52) = 2 powi (- 22 - int d)" by (simp add: d)
  also have "\<dots> = 1 / (2 ^ 22 * 2 ^ d)"
    by (simp add: power_int_diff power_int_minus field_simps)
  finally have u: "(2::rat) powi (flog2 x - 52) = 1 / (2 ^ 22 * 2 ^ d)" .
  have "x / 2 powi (flog2 x - 52) = x * (2 ^ 22 * 2 ^ d)" by (simp add: u)
  also have "\<dots> = rat_of_int (k * 2 ^ d)" by (simp add: x_def)
  finally have "round_half_even (x / 2 powi (flog2 x - 52)) = k * 2 ^ d"
    by (simp only: round_half_even_of_int)
  then have "fl x = rat_of_int (k * 2 ^ d) * 2 powi (flog2 x - 52)"
    using pos by (simp add: fl_pos_eq)
  also have "\<dots> = rat_of_int (k * 2 ^ d) * (1 / (2 ^ 22 * 2 ^ d))" by (simp only: u)
  also have "\<dots> = x" by (simp add: x_def)
  finally show ?thesis by (simp only: x_def)
qed

section \<open>Properties of the cost calculator\<close>

text \<open>
  C4. For every account state \<open>(results_used, posts_analyzed)\<close> and every requested
  count, \<open>validate_user_limits\<close> rejects exactly the requests with
  \<open>results_used + requested > 150\<close> or \<open>posts_analyzed + requested * 15 > 2250\<close>, and
  on rejection the remaining-results and remaining-posts figures it reports are
  \<open>150 - results_used\<close> and \<open>2250 - posts_analyzed\<close>; the message of a results
  rejection prints \<open>150 - results_used\<close>, the message of a posts rejection prints
  \<open>2250 - posts_analyzed\<close>.
\<close>

theorem validate_user_limits_rejects:
  "(\<not> fst (validate_user_limits ru pa rq)) = (ru + rq > 150 \<or> pa + rq * 15 > 2250) \<and>
   (\<not> fst (validate_user_limits ru pa rq) \<longrightarrow>
      snd (snd (validate_user_limits ru pa rq)) = (rq * 15, 150 - ru, 2250 - pa)) \<and>
   (ru + rq > 150 \<longrightarrow>
      fst (snd (validate_user_limits ru pa rq)) =
        ''Request would exceed beta limit. You have '' @ str_int (150 - ru)
          @ '' results remaining, but requested '' @ str_int rq) \<and>
   (\<not> ru + rq > 150 \<and> pa + rq * 15 > 2250 \<longrightarrow>
      fst (snd (validate_user_limits ru pa rq)) =
        ''Request would exceed budget limit. You have '' @ str_int (2250 - pa)
          @ '' posts remaining (max '' @ str_int ((2250 - pa) div 15)
          @ '' results), but requested '' @ str_int rq @ '' results'')"
  by (simp add: validate_user_limits_def get_posts_to_scrape_def MAX_RESULTS_def
      MAX_POSTS_def Let_def)

lemma scenario_5_rejected: "\<not> fst (validate_user_limits 145 2175 10)"
  by (simp add: validate_user_limits_def get_posts_to_scrape_def MAX_RESULTS_def
      MAX_POSTS_def Let_def)

lemma posts_rejected_example: "\<not> fst (validate_user_limits 0 2200 10)"
  by (simp add: validate_user_limits_def get_posts_to_scrape_def MAX_RESULTS_def
      MAX_POSTS_def Let_def)

theorem validate_user_limits_rejects_witness:
  "\<not> fst (validate_user_limits 145 2175 10) \<and>
   snd (snd (validate_user_limits 145 2175 10)) = (150, 5, 75) \<and>
   fst (snd (validate_user_limits 145 2175 10)) =
     ''Request would exceed beta limit. You have 5 results remaining, but requested 10'' \<and>
   \<not> fst (validate_user_limits 0 2200 10) \<and>
   snd (snd (validate_user_limits 0 2200 10)) = (150, 150, 50)"
proof -
  have a: "snd (snd (validate_user_limits 145 2175 10)) = (10 * 15, 150 - 145, 2250 - 2175)"
    using validate_user_limits_rejects [of 145 2175 10] scenario_5_rejected by blast
  have "(145::int) + 10 > 150" by simp
  then have b: "fst (snd (validate_user_limits 145 2175 10)) =
      ''Request would exceed beta limit. You have '' @ str_int (150 - 145)
        @ '' results remaining, but requested '' @ str_int 10"
    using validate_user_limits_rejects [of 145 2175 10] by blast
  have c: "snd (snd (validate_user_limits 0 2200 10)) = (10 * 15, 150 - 0, 2250 - 2200)"
    using validate_user_limits_rejects [of 0 2200 10] posts_rejected_example by blast
  show ?thesis
    using a b c scenario_5_rejected posts_rejected_example
    by (simp add: str_int_def str_nat.simps)
qed

section \<open>Properties of the result cache\<close>

lemma fl_zero: "fl 0 = 0"
  by (simp add: fl_def)

lemma age_hours_same: "age_hours now now = 0"
  by (simp add: age_hours_def fsub_def fdiv_def fl_zero)

text \<open>
  The age the lookup computes agrees with the elapsed time about the limit: an entry
  at most 86400 seconds old has a computed age of at most 24, and for clock readings
  on the grid of \<open>1 / 2 ^ 22\<close> seconds an entry more than 86400 seconds old has a
  computed age above 24.
\<close>

lemma fl_86400: "fl 86400 = 86400"
  by code_simp

lemma fl_24: "fl (86400 / 3600) = 24"
  by code_simp

lemma age_hours_le_24:
  assumes "0 \<le> now - timestamp" "now - timestamp \<le> 86400"
  shows "age_hours now timestamp \<le> 24"
proof -
  have a: "0 \<le> fl (now - timestamp)" using assms(1) by (rule fl_nonneg)
  have "fl (now - timestamp) \<le> fl 86400" using assms by (rule fl_mono)
  then have b: "fl (now - timestamp) \<le> 86400" by (simp only: fl_86400)
  have "fl (fl (now - timestamp) / 3600) \<le> fl (86400 / 3600)"
    using a b by (intro fl_mono) simp_all
  then show ?thesis by (simp only: age_hours_def fsub_def fdiv_def fl_24)
qed

lemma fl_next_after_24: "24 < fl ((86400 + 1 / 2 ^ 22) / 3600)"
  by code_simp

lemma age_hours_gt_24:
  assumes "now - timestamp = rat_of_int k / 2 ^ 22" "k < 2 ^ 53" "86400 < now - timestamp"
  shows "24 < age_hours now timestamp"
proof -
  have "rat_of_int (86400 * 2 ^ 22) < rat_of_int k" using assms(1,3) by (simp add: field_simps)
  then have k: "86400 * 2 ^ 22 < k" by (simp only: of_int_less_iff)
  then have "86400 * 2 ^ 22 + 1 \<le> k" by simp
  then have "rat_of_int (86400 * 2 ^ 22 + 1) \<le> rat_of_int k" by (simp only: of_int_le_iff)
  then have lo: "86400 + 1 / 2 ^ 22 \<le> now - timestamp" using assms(1) by (simp add: field_simps)
  have "0 < k" using k by simp
  then have ex: "fl (now - timestamp) = now - timestamp"
    unfolding assms(1) using assms(2) by (rule fl_exact_grid)
  have "fl ((86400 + 1 / 2 ^ 22) / 3600) \<le> fl ((now - timestamp) / 3600)"
    using lo by (intro fl_mono) simp_all
  with fl_next_after_24 show ?thesis
    by (simp add: age_hours_def fsub_def fdiv_def ex)
qed

text \<open>
  C6. For every stored cache entry, a lookup whose age (as the lookup computes it,
  \<open>age_hours now timestamp\<close>) exceeds 24 hours returns a miss and deletes that entry,
  leaving every other entry as it was; a lookup at age at most 24 hours returns the
  stored payload together with that age and leaves the cache unchanged; a lookup for
  a key that was never stored returns a miss and leaves the cache unchanged.
\<close>

theorem get_cached_results_ttl:
  "(cache (generate_cache_key q bt tr uid rc) = Some (ts, payload) \<and> age_hours now ts > 24 \<longrightarrow>
      get_cached_results cache now q bt tr uid rc =
        (None, cache(generate_cache_key q bt tr uid rc := None))) \<and>
   (cache (generate_cache_key q bt tr uid rc) = Some (ts, payload) \<and> age_hours now ts \<le> 24 \<longrightarrow>
      get_cached_results cache now q bt tr uid rc = (Some (payload, age_hours now ts), cache)) \<and>
   (cache (generate_cache_key q bt tr uid rc) = None \<longrightarrow>
      get_cached_results cache now q bt tr uid rc = (None, cache))"
  by (simp add: get_cached_results_def refresh_interval_hours_def Let_def)

lemma age_25_hours: "age_hours 90000 0 = 25"
  unfolding age_hours_def fsub_def fdiv_def by code_simp

lemma age_24_hours: "age_hours 86400 0 = 24"
  unfolding age_hours_def fsub_def fdiv_def by code_simp

lemma key_example:
  "generate_cache_key ''leads'' ''Fitness'' ''all_time'' ''7'' (Some 20) =
     ''leads_Fitness_all_time_7_20''"
  by (simp add: generate_cache_key_def str_int_def str_nat.simps)

theorem get_cached_results_ttl_witness:
  "get_cached_results [''leads_Fitness_all_time_7_20'' \<mapsto> (0, [1::nat, 2])] 90000
       ''leads'' ''Fitness'' ''all_time'' ''7'' (Some 20) = (None, Map.empty) \<and>
   get_cached_results [''leads_Fitness_all_time_7_20'' \<mapsto> (0, [1::nat, 2])] 86400
       ''leads'' ''Fitness'' ''all_time'' ''7'' (Some 20) =
     (Some ([1, 2], 24), [''leads_Fitness_all_time_7_20'' \<mapsto> (0, [1, 2])]) \<and>
   get_cached_results (Map.empty :: nat list cache) 86400
       ''leads'' ''Fitness'' ''all_time'' ''7'' (Some 20) = (None, Map.empty)"
proof -
  let ?c = "[''leads_Fitness_all_time_7_20'' \<mapsto> (0::rat, [1::nat, 2])]"
  let ?k = "generate_cache_key ''leads'' ''Fitness'' ''all_time'' ''7'' (Some 20)"
  have stored: "?c ?k = Some (0, [1, 2])"
    by (simp add: key_example)
  have old: "age_hours 90000 0 > 24" by (simp add: age_25_hours)
  have fresh: "age_hours 86400 0 \<le> 24" by (simp add: age_24_hours)
  have a: "get_cached_results ?c 90000 ''leads'' ''Fitness'' ''all_time'' ''7'' (Some 20) =
      (None, ?c(?k := None))"
    using get_cached_results_ttl [of ?c "''leads''" "''Fitness''" "''all_time''" "''7''"
        "Some 20" 0 "[1, 2]" 90000] stored old by blast
  have b: "get_cached_results ?c 86400 ''leads'' ''Fitness'' ''all_time'' ''7'' (Some 20) =
      (Some ([1, 2], age_hours 86400 0), ?c)"
    using get_cached_results_ttl [of ?c "''leads''" "''Fitness''" "''all_time''" "''7''"
        "Some 20" 0 "[1, 2]" 86400] stored fresh by blast
  have "(Map.empty :: nat list cache) ?k = None" by simp
  then have c: "get_cached_results (Map.empty :: nat list cache) 86400
      ''leads'' ''Fitness'' ''all_time'' ''7'' (Some 20) = (None, Map.empty)"
    using get_cached_results_ttl [of Map.empty "''leads''" "''Fitness''" "''all_time''" "''7''"
        "Some 20" 0 "[]" 86400] by blast
  have del: "?c(?k := None) = Map.empty"
    by (simp add: key_example)
  have a': "get_cached_results ?c 90000 ''leads'' ''Fitness'' ''all_time'' ''7'' (Some 20) =
      (None, Map.empty)"
    using a unfolding del .
  have b': "get_cached_results ?c 86400 ''leads'' ''Fitness'' ''all_time'' ''7'' (Some 20) =
      (Some ([1, 2], 24), ?c)"
    using b unfolding age_24_hours .
  show ?thesis
    using a' b' c by blast
qed

text \<open>
  C10. The cache key function is not injective: the key is the plain
  underscore-concatenation of query, business type, time range, user id and result
  count, so two distinct argument tuples that split an underscore-containing query or
  user id differently give the same key, and a lookup returns the payload that was
  stored for a different query or for a different caller.
\<close>

theorem generate_cache_key_not_injective:
  "generate_cache_key ''a_b'' ''c'' ''all_time'' ''7'' (Some 20) =
     generate_cache_key ''a'' ''b_c'' ''all_time'' ''7'' (Some 20) \<and>
   (''a_b'', ''c'', ''all_time'', ''7'', Some (20::int)) \<noteq> (''a'', ''b_c'', ''all_time'', ''7'', Some 20) \<and>
   generate_cache_key ''leads_Fitness_all_time_7'' ''Fitness'' ''all_time'' ''8'' (Some 20) =
     generate_cache_key ''leads'' ''Fitness'' ''all_time'' ''7_Fitness_all_time_8'' (Some 20) \<and>
   ''8'' \<noteq> ''7_Fitness_all_time_8'' \<and>
   fst (get_cached_results
         (cache_results Map.empty now ''a_b'' ''c'' ''all_time'' ''7'' (payload, 0) (Some 20))
         now ''a'' ''b_c'' ''all_time'' ''7'' (Some 20)) = Some (payload, 0) \<and>
   fst (get_cached_results
         (cache_results Map.empty now ''leads_Fitness_all_time_7'' ''Fitness'' ''all_time'' ''8''
            (payload, 0) (Some 20))
         now ''leads'' ''Fitness'' ''all_time'' ''7_Fitness_all_time_8'' (Some 20)) =
     Some (payload, 0)"
  by (simp add: generate_cache_key_def get_cached_results_def cache_results_def
      refresh_interval_hours_def age_hours_same Let_def)

section \<open>Properties of the relevance scorer\<close>

lemma starts_with_iff_prefix: "starts_with p s = prefix p s"
  by (induction p s rule: starts_with.induct) simp_all

lemma str_in_iff_sublist: "str_in p s = sublist p s"
  by (induction s) (simp_all add: starts_with_iff_prefix sublist_Cons_right)

lemma currency_amount_iff:
  "currency_amount s = (\<exists>a d b. s = a @ CHR ''$'' # d # b \<and> is_digit d)"
proof (induction s rule: currency_amount.induct)
  case 1
  then show ?case by simp
next
  case (2 c)
  then show ?case by (simp add: append_eq_Cons_conv)
next
  case (3 c d s)
  show ?case
  proof
    assume "currency_amount (c # d # s)"
    then consider "c = CHR ''$''" "is_digit d" | "currency_amount (d # s)" by auto
    then show "\<exists>a e b. c # d # s = a @ CHR ''$'' # e # b \<and> is_digit e"
    proof cases
      case 1
      then have "c # d # s = [] @ CHR ''$'' # d # s \<and> is_digit d" by simp
      then show ?thesis by blast
    next
      case 2
      with 3 obtain a e b where "d # s = a @ CHR ''$'' # e # b" "is_digit e" by auto
      then have "c # d # s = (c # a) @ CHR ''$'' # e # b \<and> is_digit e" by simp
      then show ?thesis by blast
    qed
  next
    assume "\<exists>a e b. c # d # s = a @ CHR ''$'' # e # b \<and> is_digit e"
    then obtain a e b where eq: "c # d # s = a @ CHR ''$'' # e # b" and dig: "is_digit e"
      by blast
    show "currency_amount (c # d # s)"
    proof (cases a)
      case Nil
      with eq dig show ?thesis by simp
    next
      case (Cons x a')
      with eq have "d # s = a' @ CHR ''$'' # e # b" by simp
      with dig 3 have "currency_amount (d # s)" by blast
      then show ?thesis by simp
    qed
  qed
qed

lemma count_matches_from_eq: "count_matches_from acc text ks = acc + n_matched text ks"
  by (induction ks arbitrary: acc) (simp_all add: n_matched_def)

lemma count_matches_eq: "count_matches text ks = n_matched text ks"
  by (simp add: count_matches_def count_matches_from_eq)

lemma n_matched_append: "n_matched text (xs @ ys) = n_matched text xs + n_matched text ys"
  by (simp add: n_matched_def)

lemma n_matched_nonneg: "0 \<le> n_matched text ps"
  by (simp add: n_matched_def)

lemma n_matched_le_length: "n_matched text ps \<le> int (length ps)"
  by (simp add: n_matched_def)

lemma add_matches_eq: "add_matches w text ps score = score + w * n_matched text ps"
  by (induction ps arbitrary: score) (simp_all add: n_matched_def algebra_simps)

lemma add_matches_dict_eq:
  "add_matches_dict w text d score = score + w * n_matched text (all_patterns d)"
proof (induction d arbitrary: score)
  case Nil
  then show ?case by (simp add: all_patterns_def n_matched_def)
next
  case (Cons entry d)
  obtain category patterns where entry: "entry = (category, patterns)" by (cases entry)
  have "all_patterns (entry # d) = patterns @ all_patterns d"
    by (simp add: all_patterns_def entry)
  then show ?case
    by (simp add: entry Cons.IH add_matches_eq n_matched_append algebra_simps)
qed

text \<open>
  C1 (as the program computes it). In the default (improved) mode the struggle score
  of every post text is the clamp to \<open>[0, 100]\<close> of: +25 for each active-struggle
  phrase found, +15 for each high-urgency entry found, +8 for each medium-urgency
  entry found, +20 when the text has a question mark, -30 for each individual
  success-story phrase found (every phrase of every family counts), -25 when the
  currency-amount pattern matches and -15 when "i will not promote" is present.
\<close>

theorem calculate_struggle_detection_improved:
  "calculate_struggle_detection True text =
     max 0 (min 100
       (25 * n_matched text (all_patterns active_struggle_patterns)
        + 15 * n_matched text high_urgency
        + 8 * n_matched text medium_urgency
        + (if str_in ''?'' text then 20 else 0)
        - 30 * n_matched text (all_patterns success_story_patterns)
        - (if currency_amount text then 25 else 0)
        - (if str_in ''i will not promote'' text then 15 else 0)))"
  by (simp add: calculate_struggle_detection_def Let_def add_matches_eq add_matches_dict_eq
      algebra_simps)

text \<open>
  C1 as stated fails: the text "help me? i grew i built" earns 25 + 15 + 20 = 60 and
  matches two phrases of the single family \<open>past_tense_success\<close>. A penalty of 30 per
  family would leave 30; the program subtracts 30 per phrase and returns 0.
\<close>

theorem struggle_detection_per_family_counterexample:
  "calculate_struggle_detection True ''help me? i grew i built'' = 0 \<and>
   struggle_detection_per_family ''help me? i grew i built'' = 30"
  by code_simp

text \<open>
  C2 (as the program computes it). For every post text and keyword list the
  keyword-match score is 0 for the empty list and otherwise
  \<open>min(100, int((matched / total) * 100))\<close>: the float product is truncated towards
  zero, not rounded, and \<open>matched\<close> counts every entry of the list found in the text,
  a repeated keyword once for each repetition.
\<close>

theorem calculate_keyword_match_truncates:
  "calculate_keyword_match text keywords =
     (if keywords = [] then 0
      else min 100 (py_trunc (fmul (py_truediv (n_matched text keywords) (int (length keywords))) 100)))"
  by (simp add: calculate_keyword_match_def count_matches_eq Let_def)

text \<open>
  C2 as stated fails. Two of the three keywords a, b, c occur in "ab": the rounded
  percentage is 67, the program returns 66. The list a, a, b has one distinct keyword
  in "a": the rounded percentage of distinct matches is 33, the program counts the
  repetition and returns 66.
\<close>

theorem keyword_match_round_counterexample:
  "calculate_keyword_match ''ab'' [''a'', ''b'', ''c''] = 66 \<and>
   keyword_match_spec ''ab'' [''a'', ''b'', ''c''] = 67 \<and>
   calculate_keyword_match ''a'' [''a'', ''a'', ''b''] = 66 \<and>
   keyword_match_spec ''a'' [''a'', ''a'', ''b''] = 33"
  by code_simp






lemma py_trunc_nonneg: "0 \<le> x \<Longrightarrow> 0 \<le> py_trunc x"
  by (simp add: py_trunc_def)

lemma py_trunc_le: "x \<le> rat_of_int n \<Longrightarrow> py_trunc x \<le> n"
  by (simp add: py_trunc_def floor_le_iff ceiling_le_iff)

lemma py_truediv_nonneg: "0 \<le> a \<Longrightarrow> 0 \<le> b \<Longrightarrow> 0 \<le> py_truediv a b"
  by (simp add: py_truediv_def fl_nonneg)

lemma fmul_nonneg: "0 \<le> x \<Longrightarrow> 0 \<le> y \<Longrightarrow> 0 \<le> fmul x y"
  by (simp add: fmul_def fl_nonneg)

lemma fadd_nonneg: "0 \<le> x \<Longrightarrow> 0 \<le> y \<Longrightarrow> 0 \<le> fadd x y"
  by (simp add: fadd_def fl_nonneg)

lemma fmul_mono: "0 \<le> x \<Longrightarrow> x \<le> y \<Longrightarrow> 0 \<le> c \<Longrightarrow> fmul x c \<le> fmul y c"
  unfolding fmul_def by (intro fl_mono mult_nonneg_nonneg mult_right_mono)

lemma fadd_mono: "0 \<le> x \<Longrightarrow> 0 \<le> y \<Longrightarrow> x \<le> x' \<Longrightarrow> y \<le> y' \<Longrightarrow> fadd x y \<le> fadd x' y'"
  unfolding fadd_def by (intro fl_mono add_nonneg_nonneg add_mono)

lemma weights_improved:
  "fmul 100 (fl (3 / 10)) = 30" "fmul 100 (fl (6 / 10)) = 60" "fmul 100 (fl (1 / 10)) = 10"
  by code_simp+

lemma weights_legacy:
  "fmul 100 (fl (4 / 10)) = 40" "fmul 100 (fl (2 / 10)) = 20"
  by code_simp+

lemma sums_exact:
  "fadd 30 60 = 90" "fadd 90 10 = 100" "fadd 40 40 = 80" "fadd 80 20 = 100"
  by code_simp+

lemma weighted_sum_bounds:
  assumes k: "0 \<le> k" "k \<le> 100" and s: "0 \<le> s" "s \<le> 100" and b: "0 \<le> b" "b \<le> 100"
    and ck: "0 \<le> ck" "fmul 100 ck = wk" and cs: "0 \<le> cs" "fmul 100 cs = ws"
    and cb: "0 \<le> cb" "fmul 100 cb = wb"
    and sum: "fadd (fadd wk ws) wb = 100"
  shows "0 \<le> py_trunc (fadd (fadd (fmul (rat_of_int k) ck) (fmul (rat_of_int s) cs))
                              (fmul (rat_of_int b) cb))"
    and "py_trunc (fadd (fadd (fmul (rat_of_int k) ck) (fmul (rat_of_int s) cs))
                        (fmul (rat_of_int b) cb)) \<le> 100"
proof -
  let ?k = "fmul (rat_of_int k) ck" and ?s = "fmul (rat_of_int s) cs" and ?b = "fmul (rat_of_int b) cb"
  have k0: "0 \<le> ?k" and s0: "0 \<le> ?s" and b0: "0 \<le> ?b"
    using k s b ck cs cb by (simp_all add: fmul_nonneg)
  have k1: "?k \<le> wk" using fmul_mono [of "rat_of_int k" 100 ck] k ck by simp
  have s1: "?s \<le> ws" using fmul_mono [of "rat_of_int s" 100 cs] s cs by simp
  have b1: "?b \<le> wb" using fmul_mono [of "rat_of_int b" 100 cb] b cb by simp
  have ks0: "0 \<le> fadd ?k ?s" using k0 s0 by (rule fadd_nonneg)
  have ks1: "fadd ?k ?s \<le> fadd wk ws" using k0 s0 k1 s1 by (rule fadd_mono)
  have all0: "0 \<le> fadd (fadd ?k ?s) ?b" using ks0 b0 by (rule fadd_nonneg)
  have "fadd (fadd ?k ?s) ?b \<le> fadd (fadd wk ws) wb" using ks0 b0 ks1 b1 by (rule fadd_mono)
  then have all1: "fadd (fadd ?k ?s) ?b \<le> rat_of_int 100" using sum by simp
  show "0 \<le> py_trunc (fadd (fadd ?k ?s) ?b)" using all0 by (rule py_trunc_nonneg)
  show "py_trunc (fadd (fadd ?k ?s) ?b) \<le> 100" using all1 by (rule py_trunc_le)
qed

lemma calculate_keyword_match_bounds:
  "0 \<le> calculate_keyword_match text keywords" "calculate_keyword_match text keywords \<le> 100"
  by (simp_all add: calculate_keyword_match_def count_matches_eq Let_def py_trunc_nonneg
      fmul_nonneg py_truediv_nonneg n_matched_nonneg)

lemma add_matches_nonneg: "0 \<le> w \<Longrightarrow> 0 \<le> score \<Longrightarrow> 0 \<le> add_matches w text ps score"
  by (simp add: add_matches_eq n_matched_nonneg)

lemma calculate_struggle_detection_bounds:
  "0 \<le> calculate_struggle_detection improved text" "calculate_struggle_detection improved text \<le> 100"
  by (simp_all add: calculate_struggle_detection_def Let_def add_matches_nonneg)

lemma calculate_business_relevance_bounds:
  "0 \<le> calculate_business_relevance improved text business_type industry_type"
  "calculate_business_relevance improved text business_type industry_type \<le> 100"
  by (simp_all add: calculate_business_relevance_def Let_def add_matches_nonneg)

text \<open>
  C9. For every post, keyword list and category selection, in the legacy and in the
  improved mode, every score of the returned \<open>RelevanceScore\<close> (keyword match, struggle
  detection, business relevance and overall) lies in \<open>[0, 100]\<close>.
\<close>

theorem analyze_post_relevance_bounds:
  "0 \<le> keyword_match (analyze_post_relevance improved post kws business_type industry_type) \<and>
   keyword_match (analyze_post_relevance improved post kws business_type industry_type) \<le> 100 \<and>
   0 \<le> struggle_detection (analyze_post_relevance improved post kws business_type industry_type) \<and>
   struggle_detection (analyze_post_relevance improved post kws business_type industry_type) \<le> 100 \<and>
   0 \<le> business_relevance (analyze_post_relevance improved post kws business_type industry_type) \<and>
   business_relevance (analyze_post_relevance improved post kws business_type industry_type) \<le> 100 \<and>
   0 \<le> overall_score (analyze_post_relevance improved post kws business_type industry_type) \<and>
   overall_score (analyze_post_relevance improved post kws business_type industry_type) \<le> 100"
proof -
  let ?t = "lower (py_format (dict_get (sp_title post)) @ '' '' @ py_format (dict_get (sp_text post)))"
  let ?k = "calculate_keyword_match ?t kws"
  let ?s = "calculate_struggle_detection improved ?t"
  let ?b = "calculate_business_relevance improved ?t business_type industry_type"
  note kb = calculate_keyword_match_bounds [of ?t kws]
  note sb = calculate_struggle_detection_bounds [of improved ?t]
  note bb = calculate_business_relevance_bounds [of improved ?t business_type industry_type]
  have imp: "0 \<le> py_trunc (fadd (fadd (fmul (rat_of_int ?k) (fl (3 / 10))) (fmul (rat_of_int ?s) (fl (6 / 10))))
                                    (fmul (rat_of_int ?b) (fl (1 / 10))))
           \<and> py_trunc (fadd (fadd (fmul (rat_of_int ?k) (fl (3 / 10))) (fmul (rat_of_int ?s) (fl (6 / 10))))
                              (fmul (rat_of_int ?b) (fl (1 / 10)))) \<le> 100"
    using weighted_sum_bounds [OF kb sb bb _ weights_improved(1) _ weights_improved(2) _ weights_improved(3)]
    by (simp add: fl_nonneg sums_exact)
  have leg: "0 \<le> py_trunc (fadd (fadd (fmul (rat_of_int ?k) (fl (4 / 10))) (fmul (rat_of_int ?s) (fl (4 / 10))))
                                    (fmul (rat_of_int ?b) (fl (2 / 10))))
           \<and> py_trunc (fadd (fadd (fmul (rat_of_int ?k) (fl (4 / 10))) (fmul (rat_of_int ?s) (fl (4 / 10))))
                              (fmul (rat_of_int ?b) (fl (2 / 10)))) \<le> 100"
    using weighted_sum_bounds [OF kb sb bb _ weights_legacy(1) _ weights_legacy(1) _ weights_legacy(2)]
    by (simp add: fl_nonneg sums_exact)
  show ?thesis
  proof (cases improved)
    case True
    then show ?thesis
      using kb sb bb imp by (simp add: analyze_post_relevance_def Let_def)
  next
    case False
    then show ?thesis
      using kb sb bb leg by (simp add: analyze_post_relevance_def Let_def)
  qed
qed

section \<open>Properties of the fast lead filter\<close>

lemma filter_loop_error:
  "p \<in> set posts \<Longrightarrow> score_post all_keywords enhanced_keywords problem p = Inl e \<Longrightarrow>
   \<exists>e'. filter_loop threshold all_keywords enhanced_keywords problem posts acc = Inl e'"
proof (induction posts arbitrary: acc)
  case Nil
  then show ?case by simp
next
  case (Cons q posts)
  show ?case
  proof (cases "score_post all_keywords enhanced_keywords problem q")
    case (Inl e')
    then show ?thesis by simp
  next
    case (Inr score)
    with Cons.prems have "p \<in> set posts" by auto
    from Cons.IH [OF this Cons.prems(2)] Inr show ?thesis by (simp add: Let_def)
  qed
qed

text \<open>
  Any batch that holds one post whose scoring raises comes back empty: the loop of
  \<open>_rule_based_filter\<close> has no handler of its own, and the handler of \<open>filter_posts\<close>
  returns the empty list.
\<close>

lemma filter_posts_aborts_on_scoring_error:
  assumes "p \<in> set posts"
    and "score_post (mapping_keywords mappings business_type @ extract_keywords problem)
           (extract_keywords problem) problem p = Inl e"
  shows "fst (filter_posts summary_body threshold mappings posts problem business_type None) = []"
proof -
  obtain e' where
    "filter_loop threshold (mapping_keywords mappings business_type @ extract_keywords problem)
       (extract_keywords problem) problem posts [] = Inl e'"
    using filter_loop_error [OF assms] by blast
  then show ?thesis
    by (simp add: filter_posts_def rule_based_filter_def Let_def)
qed

text \<open>
  The two later stages do isolate a single post: a post whose \<open>Lead\<close> cannot be built
  is skipped, and a lead whose summary raises gets the fallback summary.
\<close>

lemma create_leads_from_posts_append:
  "create_leads_from_posts (ps @ qs) business_type =
     create_leads_from_posts ps business_type @ create_leads_from_posts qs business_type"
  by (induction ps) (simp_all split: sum.split)

lemma create_leads_from_posts_skips:
  "make_lead p business_type = Inl e \<Longrightarrow>
   create_leads_from_posts (ps @ p # qs) business_type =
     create_leads_from_posts (ps @ qs) business_type"
  by (simp add: create_leads_from_posts_append)

lemma add_simple_summaries_length:
  "length (add_simple_summaries summary_body leads problem) = length leads"
  by (simp add: add_simple_summaries_def)

lemma generate_smart_summary_fallback:
  "summary_body lead = Inl e \<Longrightarrow>
   generate_smart_summary summary_body lead problem =
     ''Post about '' @ lower problem @ '' - '' @ take 80 (lead_title lead) @ ''...''"
  by (simp add: generate_smart_summary_def)

lemma example_post_score:
  "score_post (mapping_keywords BUSINESS_MAPPINGS ''SaaS Companies'' @ extract_keywords ''getting clients'')
     (extract_keywords ''getting clients'') ''getting clients'' example_post = Inr 25"
  by code_simp

lemma untitled_post_score:
  "score_post (mapping_keywords BUSINESS_MAPPINGS ''SaaS Companies'' @ extract_keywords ''getting clients'')
     (extract_keywords ''getting clients'') ''getting clients'' untitled_post = Inl AttributeError"
  by code_simp

text \<open>
  C7 on the code. With the threshold 5 of the configuration, the example post alone
  gives one lead. The same batch followed by a post whose \<open>"title"\<close> is \<open>None\<close> gives no
  lead at all: \<open>None.lower()\<close> raises while that one post is scored, and the whole batch
  is lost instead of the one post being skipped.
\<close>

theorem filter_posts_scoring_exception_loses_batch:
  "fst (filter_posts (\<lambda>lead. Inr ''SaaS Founder looking for solutions to current challenges'') 5
          BUSINESS_MAPPINGS [example_post] ''getting clients'' ''SaaS Companies'' None) =
     [example_lead\<lparr>lead_ai_summary :=
        Some ''SaaS Founder looking for solutions to current challenges''\<rparr>] \<and>
   fst (filter_posts (\<lambda>lead. Inr ''SaaS Founder looking for solutions to current challenges'') 5
          BUSINESS_MAPPINGS [example_post, untitled_post] ''getting clients'' ''SaaS Companies'' None) =
     []"
  by code_simp

section \<open>Properties of the search endpoint\<close>










lemma validate_request_invalid:
  assumes "result_count request < 1 \<or> result_count request > 150
           \<or> strip (problem_description request) = []
           \<or> (\<not> truthy (business request) \<and> \<not> truthy (industry request))"
  shows "\<exists>detail. validate_request request = Some detail
           \<and> detail \<in> set validation_details"
  using assms by (auto simp add: validate_request_def validation_details_def)

text \<open>
  Every access to the database, the cache or Reddit is recorded: a request that gets
  as far as the usage check of an identified caller, or as far as the cache lookup,
  leaves a longer log.
\<close>

lemma check_user_usage_logs:
  "user_id request = Some uid \<Longrightarrow> py_int uid = Some n \<Longrightarrow>
   events (snd (check_user_usage w request)) = events w @ [DbQueryUser n]"
  by (auto simp add: check_user_usage_def py_int_def strip_def Let_def
      split: option.splits prod.splits)

lemma run_search_logs:
  "env_init_error env = None \<Longrightarrow>
   get_beta_subreddits (business_mappings w) (selected_type request) = Inr subreddits \<Longrightarrow>
   \<exists>rest. events (snd (run_search env w request posts_needed)) =
            events w @ CacheLookup (generate_cache_key (problem_description request)
              (selected_type request) ''all_time'' (caller_key request)
              (Some (result_count request))) # rest"
  by (auto simp add: run_search_def Let_def split: option.splits prod.splits)

text \<open>
  C8. For every request, \<open>search_leads\<close> fails with a 400 validation error when the
  requested count is outside \<open>[1, 150]\<close>, or the problem text is empty or whitespace, or
  no category is given; the state it leaves is the state it found, with not one access
  to the database, the cache or Reddit logged, so the rejection comes before any quota
  check, cache access or fetch.
\<close>

theorem search_leads_validates_first:
  assumes "result_count request < 1 \<or> result_count request > 150
           \<or> strip (problem_description request) = []
           \<or> (\<not> truthy (business request) \<and> \<not> truthy (industry request))"
  shows "\<exists>detail. search_leads env w request = (Inl (HTTP400 detail), w)
           \<and> detail \<in> set validation_details"
proof -
  obtain detail where "validate_request request = Some detail"
    and "detail \<in> set validation_details"
    using validate_request_invalid [OF assms] by blast
  then show ?thesis by (simp add: search_leads_def)
qed

theorem search_leads_validates_first_witness:
  "result_count oversized_request = 200 \<and>
   (\<exists>detail. search_leads example_env example_world oversized_request =
               (Inl (HTTP400 detail), example_world)) \<and>
   events (snd (search_leads example_env example_world oversized_request)) = []"
proof -
  have rc: "result_count oversized_request = 200"
    by (simp add: oversized_request_def example_request_def)
  then have "result_count oversized_request < 1 \<or> result_count oversized_request > 150
      \<or> strip (problem_description oversized_request) = []
      \<or> (\<not> truthy (business oversized_request) \<and> \<not> truthy (industry oversized_request))"
    by simp
  from search_leads_validates_first [OF this, of example_env example_world]
  obtain detail where d: "search_leads example_env example_world oversized_request =
      (Inl (HTTP400 detail), example_world)"
    by blast
  have "events example_world = []" by (simp add: example_world_def)
  with rc d show ?thesis by auto
qed

end
